theory Spec2Isabelle
  imports Complex_Main
begin

section \<open>Python values, responses and exceptions\<close>

text \<open>
  The values that \<^verbatim>\<open>response.json()\<close> hands to the collector, and the values the
  collector stores in its result dictionaries. A dictionary is an association list in
  insertion order. A float is the real number it stands for.
\<close>

datatype pyval =
    PNone
  | PBool bool
  | PInt int
  | PFloat real
  | PStr string
  | PList "pyval list"
  | PDict "(string \<times> pyval) list"

text \<open>
  A \<^verbatim>\<open>requests.Response\<close>: the status code, the header dictionary (under the
  names the source uses to read it) and the decoded JSON body, \<open>None\<close> when the body
  is not JSON.
\<close>

record response =
  status_code :: int
  response_headers :: "(string \<times> string) list"
  json_body :: "pyval option"

text \<open>
  \<^verbatim>\<open>requests.exceptions.RequestException\<close> and its subclasses. In the requests
  library \<^verbatim>\<open>HTTPError\<close>, \<^verbatim>\<open>ConnectionError\<close> and \<^verbatim>\<open>Timeout\<close> all derive
  from \<^verbatim>\<open>RequestException\<close>, so an \<^verbatim>\<open>except RequestException\<close> clause catches
  each of them. \<^verbatim>\<open>HTTPError\<close> carries the response it was raised for.
\<close>

datatype request_exception =
    HTTPError response
  | ConnectionError string
  | Timeout string

text \<open>
  The exceptions of the program. A \<^verbatim>\<open>RateLimitError\<close> carries its reset time, a
  \<^verbatim>\<open>KeyError\<close> its key; the string of the others names the failure, with the
  text of Python's message where that text is fixed.
\<close>

datatype exn =
    RateLimitError int
  | RequestException request_exception
  | KeyError string
  | ValueError string
  | TypeError
  | AttributeError
  | JSONDecodeError
  | OverflowError string
  | OSError string
  | Exception string

fun is_HTTPError :: "exn \<Rightarrow> bool" where
  "is_HTTPError (RequestException (HTTPError r)) = True"
| "is_HTTPError e = False"

section \<open>The world outside the program\<close>

text \<open>
  What one call of \<^verbatim>\<open>requests.request\<close> does: it raises a
  \<^verbatim>\<open>RequestException\<close> or returns a response.
\<close>

datatype outcome = Raises request_exception | Responds response

text \<open>
  The ways \<^verbatim>\<open>datetime.fromtimestamp\<close> fails: the local year is outside 1 to 9999
  (\<^verbatim>\<open>ValueError\<close>), the number does not fit the platform's \<^verbatim>\<open>time_t\<close>
  (\<^verbatim>\<open>OverflowError\<close>), or the platform's \<^verbatim>\<open>localtime\<close> refuses it
  (\<^verbatim>\<open>OSError\<close>).
\<close>

datatype stamp_error = YearOutOfRange | TimeTOverflow | LocaltimeFailed

fun stamp_exn :: "stamp_error \<Rightarrow> exn" where
  "stamp_exn YearOutOfRange = ValueError ''year %i is out of range''"
| "stamp_exn TimeTOverflow = OverflowError ''timestamp out of range for platform time_t''"
| "stamp_exn LocaltimeFailed = OSError ''Value too large for defined data type''"

text \<open>
  The remote service, the clocks and the platform. \<open>remote w method url k\<close> is the
  outcome of the request number \<open>k\<close> (from 0) that one call of
  \<^verbatim>\<open>_make_request\<close> issues for \<open>method\<close> and \<open>url\<close>;
  \<open>time_time w url k\<close> is what \<^verbatim>\<open>time.time()\<close> reads while that response is
  handled; \<open>datetime_now w\<close> is \<^verbatim>\<open>datetime.now().isoformat()\<close> at the moment
  the record is built. \<open>fromtimestamp_edge w t\<close> says whether the platform and its
  time zone can turn the timestamp \<open>t\<close> into a local date, for the timestamps where
  platforms differ, and \<open>fromtimestamp_error w t\<close> is the way the conversion of
  \<open>t\<close> fails when it does.
\<close>

record world =
  remote :: "string \<Rightarrow> string \<Rightarrow> nat \<Rightarrow> outcome"
  time_time :: "string \<Rightarrow> nat \<Rightarrow> real"
  datetime_now :: string
  fromtimestamp_edge :: "int \<Rightarrow> bool"
  fromtimestamp_error :: "int \<Rightarrow> stamp_error"

text \<open>
  \<^verbatim>\<open>datetime.fromtimestamp(t)\<close> for an integer \<open>t\<close>, as far as it can raise.
  From one day after the epoch to one day before the end of a 32-bit \<^verbatim>\<open>time_t\<close>
  it succeeds everywhere. More than a day before year 1 or after year 9999 (in UTC) the
  local year is out of range in every time zone and it raises. In between the platform
  decides.
\<close>

definition fromtimestamp :: "world \<Rightarrow> int \<Rightarrow> exn option" where
  "fromtimestamp w t =
     (if 86400 \<le> t \<and> t \<le> 2147397247 then None
      else if t < - 62135683200 \<or> 253402387199 < t
        then Some (stamp_exn (fromtimestamp_error w t))
      else if fromtimestamp_edge w t then None
      else Some (stamp_exn (fromtimestamp_error w t)))"

text \<open>
  The expression \<^verbatim>\<open>RateLimitError(reset_time)\<close> (source lines 56 to 60): the
  constructor formats \<^verbatim>\<open>datetime.fromtimestamp(reset_time)\<close> into the message,
  so it gives the new exception or raises what the conversion raises. Either way this is
  the exception a \<^verbatim>\<open>raise RateLimitError(reset_time)\<close> ends with.
\<close>

definition new_RateLimitError :: "world \<Rightarrow> int \<Rightarrow> exn" where
  "new_RateLimitError w reset_time =
     (case fromtimestamp w reset_time of
        Some e \<Rightarrow> e
      | None \<Rightarrow> RateLimitError reset_time)"

text \<open>The observable effects, in the order they happen.\<close>

datatype event =
    Requested string string "(string \<times> string) list"
  | Slept real

type_synonym 'a res = "(exn + 'a) \<times> event list"

definition emit :: "event \<Rightarrow> 'a res \<Rightarrow> 'a res" where
  "emit ev m = (fst m, ev # snd m)"

definition bind_res :: "'a res \<Rightarrow> ('a \<Rightarrow> 'b res) \<Rightarrow> 'b res" where
  "bind_res m f =
     (case fst m of
        Inl e \<Rightarrow> (Inl e, snd m)
      | Inr x \<Rightarrow> (fst (f x), snd m @ snd (f x)))"

definition lift_res :: "exn + 'a \<Rightarrow> 'a res" where
  "lift_res r = (r, [])"

text \<open>
  \<^verbatim>\<open>time.sleep(secs)\<close> first turns the length into a signed 64-bit count of
  nanoseconds and raises \<^verbatim>\<open>OverflowError\<close> when it does not fit; then it rejects
  a negative length with a \<^verbatim>\<open>ValueError\<close>. The bounds are exact for an integer
  length; the float lengths of this program lie between 0 and 3600.
\<close>

definition time_sleep :: "real \<Rightarrow> exn + unit" where
  "time_sleep secs =
     (if secs * 1000000000 < - (2 ^ 63) \<or> 2 ^ 63 - 1 < secs * 1000000000
        then Inl (OverflowError ''timestamp too large to convert to C _PyTime_t'')
      else if secs < 0 then Inl (ValueError ''sleep length must be non-negative'')
      else Inr ())"

section \<open>Python's int() on a header value\<close>

text \<open>
  A header value is a string of characters 0 to 255. \<^verbatim>\<open>int\<close> skips, at both
  ends, the ASCII white space (9 to 13 and 32) and the two Latin-1 spaces 133 and 160;
  the separators 28 to 31 are not skipped.
\<close>

definition is_space :: "char \<Rightarrow> bool" where
  "is_space c =
     (let n = (of_char c :: nat)
      in (9 \<le> n \<and> n \<le> 13) \<or> n = 32 \<or> n = 133 \<or> n = 160)"

definition is_digit :: "char \<Rightarrow> bool" where
  "is_digit c = (let n = (of_char c :: nat) in 48 \<le> n \<and> n \<le> 57)"

definition digit_val :: "char \<Rightarrow> int" where
  "digit_val c = (of_char c :: int) - 48"

definition strip :: "string \<Rightarrow> string" where
  "strip s = rev (dropWhile is_space (rev (dropWhile is_space s)))"

text \<open>Digits, with single underscores allowed between two digits.\<close>

fun digits_acc :: "int \<Rightarrow> string \<Rightarrow> int option" where
  "digits_acc n [] = Some n"
| "digits_acc n [c] = (if is_digit c then Some (10 * n + digit_val c) else None)"
| "digits_acc n (c # d # cs) =
     (if is_digit c then digits_acc (10 * n + digit_val c) (d # cs)
      else if c = CHR ''_'' \<and> is_digit d then digits_acc (10 * n + digit_val d) cs
      else None)"

text \<open>
  \<^verbatim>\<open>sys.get_int_max_str_digits()\<close> at its default: \<^verbatim>\<open>int\<close> refuses a
  decimal text with more digits.
\<close>

definition int_max_str_digits :: nat where
  "int_max_str_digits = 4300"

definition py_digits :: "string \<Rightarrow> int option" where
  "py_digits s =
     (if int_max_str_digits < length (filter is_digit s) then None
      else
        (case s of
           [] \<Rightarrow> None
         | c # cs \<Rightarrow> if is_digit c then digits_acc (digit_val c) cs else None))"

definition py_int :: "string \<Rightarrow> int option" where
  "py_int s =
     (case strip s of
        [] \<Rightarrow> None
      | c # cs \<Rightarrow>
          if c = CHR ''-'' then map_option uminus (py_digits cs)
          else if c = CHR ''+'' then py_digits cs
          else py_digits (c # cs))"

section \<open>Floats\<close>

text \<open>
  Rounding a real to the nearest IEEE 754 double, ties to the even significand: 53
  bits, the least exponent \<open>- 1022\<close> (so the spacing never goes below
  \<open>2 ^ - 1074\<close>). A result of magnitude \<open>2 ^ 1024\<close> or more stands for an
  infinity: it compares and enters \<^verbatim>\<open>min\<close> as the infinity does.
\<close>

definition rne :: "real \<Rightarrow> int" where
  "rne y =
     (let f = \<lfloor>y\<rfloor>; r = y - of_int f
      in if r < 1 / 2 then f
         else if 1 / 2 < r then f + 1
         else if even f then f else f + 1)"

definition round_double :: "real \<Rightarrow> real" where
  "round_double x =
     (if x = 0 then 0
      else
        let e = max \<lfloor>log 2 \<bar>x\<bar>\<rfloor> (- 1022);
            u = 2 powr (of_int e - 52)
        in sgn x * (of_int (rne (\<bar>x\<bar> / u)) * u))"

text \<open>
  An integer operand of a float operation becomes a float first; an integer that rounds
  beyond the largest double raises \<^verbatim>\<open>OverflowError\<close>.
\<close>

definition int_to_float :: "int \<Rightarrow> exn + real" where
  "int_to_float n =
     (let f = round_double (of_int n)
      in if 2 ^ 1024 \<le> \<bar>f\<bar> then Inl (OverflowError ''int too large to convert to float'')
         else Inr f)"

text \<open>\<^verbatim>\<open>n - x\<close> and \<^verbatim>\<open>x + 1\<close> for an integer \<open>n\<close> and a float \<open>x\<close>.\<close>

definition int_minus_float :: "int \<Rightarrow> real \<Rightarrow> exn + real" where
  "int_minus_float n x =
     (case int_to_float n of
        Inl e \<Rightarrow> Inl e
      | Inr f \<Rightarrow> Inr (round_double (f - x)))"

definition float_plus_one :: "real \<Rightarrow> real" where
  "float_plus_one x = round_double (x + 1)"

section \<open>The collector and its request loop\<close>

record collector =
  headers :: "(string \<times> string) list"
  base_url :: string
  max_retries :: int
  retry_delay :: int

definition init :: "string \<Rightarrow> int \<Rightarrow> int \<Rightarrow> collector" where
  "init token mr rd =
     \<lparr> headers = [(''Authorization'', ''token '' @ token),
                  (''Accept'', ''application/vnd.github.v3+json'')],
       base_url = ''https://api.github.com'',
       max_retries = mr,
       retry_delay = rd \<rparr>"

text \<open>
  \<^verbatim>\<open>response.raise_for_status()\<close>: an \<^verbatim>\<open>HTTPError\<close> for a status from 400 to
  599, nothing otherwise.
\<close>

definition raise_for_status :: "response \<Rightarrow> request_exception option" where
  "raise_for_status r =
     (if 400 \<le> status_code r \<and> status_code r < 600 then Some (HTTPError r) else None)"

text \<open>\<^verbatim>\<open>str.lower\<close> on ASCII text.\<close>

definition lower_char :: "char \<Rightarrow> char" where
  "lower_char c =
     (let n = (of_char c :: nat) in if 65 \<le> n \<and> n \<le> 90 then char_of (n + 32) else c)"

definition lower :: "string \<Rightarrow> string" where
  "lower s = map lower_char s"

text \<open>
  \<^verbatim>\<open>int(response.headers[name])\<close>: without the header a \<^verbatim>\<open>KeyError\<close>,
  which the header dictionary of requests raises with the name in lower case; a
  \<^verbatim>\<open>ValueError\<close>, here with the rejected text, when the text is no integer.
\<close>

definition header_int :: "response \<Rightarrow> string \<Rightarrow> exn + int" where
  "header_int r name =
     (case map_of (response_headers r) name of
        None \<Rightarrow> Inl (KeyError (lower name))
      | Some s \<Rightarrow>
          (case py_int s of
             None \<Rightarrow> Inl (ValueError s)
           | Some n \<Rightarrow> Inr n))"

text \<open>
  One pass through the body of the \<^verbatim>\<open>while\<close> loop ends in one of three ways: the
  function returns, it raises, or it asks for a sleep and another pass.
\<close>

datatype step = Return response | Raise exn | Retry real

text \<open>
  The \<^verbatim>\<open>try\<close> block (source lines 100 to 123). \<open>Inl e\<close> is a
  \<^verbatim>\<open>RequestException\<close> raised inside it, by \<^verbatim>\<open>requests.request\<close> or by
  \<^verbatim>\<open>raise_for_status\<close>; \<open>Inr s\<close> is everything that leaves the block another
  way. \<^verbatim>\<open>RateLimitError\<close>, \<^verbatim>\<open>KeyError\<close>, \<^verbatim>\<open>ValueError\<close>,
  \<^verbatim>\<open>OverflowError\<close> and \<^verbatim>\<open>OSError\<close> are not \<^verbatim>\<open>RequestException\<close>s
  and pass the \<^verbatim>\<open>except\<close> clause.
\<close>

definition try_body :: "collector \<Rightarrow> world \<Rightarrow> string \<Rightarrow> string \<Rightarrow> nat \<Rightarrow> request_exception + step" where
  "try_body self w url method retries =
     (case remote w method url retries of
        Raises e \<Rightarrow> Inl e
      | Responds response \<Rightarrow>
          if status_code response = 403
             \<and> ''X-RateLimit-Remaining'' \<in> fst ` set (response_headers response)
          then
            (case header_int response ''X-RateLimit-Reset'' of
               Inl e \<Rightarrow> Inr (Raise e)
             | Inr reset_time \<Rightarrow>
                 (case int_minus_float reset_time (time_time w url retries) of
                    Inl e \<Rightarrow> Inr (Raise e)
                  | Inr wait_time \<Rightarrow>
                      if wait_time > 0 \<and> int retries < max_retries self
                      then Inr (Retry (min (float_plus_one wait_time) 3600))
                      else Inr (Raise (new_RateLimitError w reset_time))))
          else
            (case raise_for_status response of
               Some e \<Rightarrow> Inl e
             | None \<Rightarrow> Inr (Return response)))"

text \<open>The \<^verbatim>\<open>except RequestException as e\<close> clause (source lines 125 to 133).\<close>

definition except_handler :: "collector \<Rightarrow> nat \<Rightarrow> request_exception \<Rightarrow> step" where
  "except_handler self retries e =
     (if int retries < max_retries self
      then Retry (real_of_int (retry_delay self * 2 ^ retries))
      else Raise (RequestException e))"

definition iteration :: "collector \<Rightarrow> world \<Rightarrow> string \<Rightarrow> string \<Rightarrow> nat \<Rightarrow> step" where
  "iteration self w url method retries =
     (case try_body self w url method retries of
        Inl e \<Rightarrow> except_handler self retries e
      | Inr s \<Rightarrow> s)"

text \<open>
  The \<^verbatim>\<open>while retries <= self.max_retries\<close> loop, entered with the counter at
  \<open>retries\<close>, and the fallback \<^verbatim>\<open>raise\<close> after it (source line 135).
\<close>

function make_request_loop :: "collector \<Rightarrow> world \<Rightarrow> string \<Rightarrow> string \<Rightarrow> nat \<Rightarrow> response res" where
  "make_request_loop self w url method retries =
     (if int retries \<le> max_retries self then
        emit (Requested method url (headers self))
          (case iteration self w url method retries of
             Return response \<Rightarrow> (Inr response, [])
           | Raise e \<Rightarrow> (Inl e, [])
           | Retry secs \<Rightarrow>
               (case time_sleep secs of
                  Inl e \<Rightarrow> (Inl e, [])
                | Inr u \<Rightarrow> emit (Slept secs) (make_request_loop self w url method (retries + 1))))
      else (Inl (Exception ''Maximum retries exceeded''), []))"
  by pat_completeness auto
termination
  by (relation "measure (\<lambda>(self, w, url, method, retries). nat (max_retries self + 1 - int retries))") auto

definition make_request :: "collector \<Rightarrow> world \<Rightarrow> string \<Rightarrow> string \<Rightarrow> response res" where
  "make_request self w url method = make_request_loop self w url method 0"


section \<open>Python operations on decoded JSON\<close>

definition bind_exn :: "exn + 'a \<Rightarrow> ('a \<Rightarrow> exn + 'b) \<Rightarrow> exn + 'b" where
  "bind_exn m f = (case m of Inl e \<Rightarrow> Inl e | Inr x \<Rightarrow> f x)"

text \<open>\<^verbatim>\<open>response.json()\<close>.\<close>

definition response_json :: "response \<Rightarrow> exn + pyval" where
  "response_json r = (case json_body r of None \<Rightarrow> Inl JSONDecodeError | Some v \<Rightarrow> Inr v)"

text \<open>
  \<^verbatim>\<open>v[k]\<close> with a string key: a dictionary without the key raises
  \<^verbatim>\<open>KeyError\<close>, every other value raises \<^verbatim>\<open>TypeError\<close>.
\<close>

fun subscript :: "pyval \<Rightarrow> string \<Rightarrow> exn + pyval" where
  "subscript (PDict kvs) k = (case map_of kvs k of None \<Rightarrow> Inl (KeyError k) | Some v \<Rightarrow> Inr v)"
| "subscript v k = Inl TypeError"

text \<open>\<^verbatim>\<open>v.get(k, d)\<close>: only a dictionary has the method.\<close>

definition get_default :: "(string \<times> 'v) list \<Rightarrow> string \<Rightarrow> 'v \<Rightarrow> 'v" where
  "get_default kvs k d = (case map_of kvs k of None \<Rightarrow> d | Some v \<Rightarrow> v)"

fun dict_get :: "pyval \<Rightarrow> string \<Rightarrow> pyval \<Rightarrow> exn + pyval" where
  "dict_get (PDict kvs) k d = Inr (get_default kvs k d)"
| "dict_get v k d = Inl AttributeError"

text \<open>
  What \<^verbatim>\<open>for x in v\<close> runs through: the elements of a list, the keys of a
  dictionary, the characters of a string; nothing else is iterable.
\<close>

fun py_iter :: "pyval \<Rightarrow> exn + pyval list" where
  "py_iter (PList xs) = Inr xs"
| "py_iter (PDict kvs) = Inr (map (\<lambda>kv. PStr (fst kv)) kvs)"
| "py_iter (PStr s) = Inr (map (\<lambda>c. PStr [c]) s)"
| "py_iter v = Inl TypeError"

text \<open>A list comprehension whose element expression may raise.\<close>

fun comprehension :: "('a \<Rightarrow> exn + 'b) \<Rightarrow> 'a list \<Rightarrow> exn + 'b list" where
  "comprehension f [] = Inr []"
| "comprehension f (x # xs) =
     bind_exn (f x) (\<lambda>y. bind_exn (comprehension f xs) (\<lambda>ys. Inr (y # ys)))"

text \<open>
  \<^verbatim>\<open>d[k] = v\<close> on a dictionary, and a dictionary display
  \<^verbatim>\<open>{k1: v1, **d, ...}\<close>, which stores its items from left to right.
\<close>

definition dict_set :: "(string \<times> 'v) list \<Rightarrow> string \<Rightarrow> 'v \<Rightarrow> (string \<times> 'v) list" where
  "dict_set d k v =
     (if k \<in> fst ` set d then map (\<lambda>kv. if fst kv = k then (k, v) else kv) d
      else d @ [(k, v)])"

definition dict_display :: "(string \<times> 'v) list \<Rightarrow> (string \<times> 'v) list" where
  "dict_display items = foldl (\<lambda>d kv. dict_set d (fst kv) (snd kv)) [] items"

section \<open>The metrics collector\<close>

definition api_url :: "collector \<Rightarrow> string \<Rightarrow> string \<Rightarrow> string \<Rightarrow> string" where
  "api_url self owner repo suffix = base_url self @ ''/repos/'' @ owner @ ''/'' @ repo @ suffix"

definition basic_fields :: "pyval \<Rightarrow> exn + (string \<times> pyval) list" where
  "basic_fields data =
     bind_exn (subscript data ''stargazers_count'') (\<lambda>stars.
     bind_exn (subscript data ''forks_count'') (\<lambda>forks.
     bind_exn (subscript data ''subscribers_count'') (\<lambda>watchers.
     bind_exn (subscript data ''open_issues_count'') (\<lambda>open_issues.
     bind_exn (subscript data ''updated_at'') (\<lambda>last_updated.
       Inr (dict_display
         [(''stars'', stars), (''forks'', forks), (''watchers'', watchers),
          (''open_issues'', open_issues), (''last_updated'', last_updated)]))))))"

definition get_repo_basic_metrics :: "collector \<Rightarrow> world \<Rightarrow> string \<Rightarrow> string \<Rightarrow> (string \<times> pyval) list res" where
  "get_repo_basic_metrics self w owner repo =
     bind_res (make_request self w (api_url self owner repo []) ''GET'') (\<lambda>response.
       lift_res (bind_exn (response_json response) basic_fields))"

text \<open>
  An \<^verbatim>\<open>except HTTPError\<close> clause that puts a default in place of the result of
  its \<^verbatim>\<open>try\<close> block. Effects that happened before the exception stay.
\<close>

definition except_HTTPError :: "'a res \<Rightarrow> 'a \<Rightarrow> 'a res" where
  "except_HTTPError m d =
     (case fst m of
        Inl e \<Rightarrow> if is_HTTPError e then (Inr d, snd m) else m
      | Inr x \<Rightarrow> m)"

definition zero_counts :: pyval where
  "zero_counts = PDict (dict_display [(''count'', PInt 0), (''uniques'', PInt 0)])"

definition traffic_fields :: "pyval \<Rightarrow> pyval \<Rightarrow> exn + (string \<times> pyval) list" where
  "traffic_fields views_data clones_data =
     bind_exn (dict_get views_data ''count'' (PInt 0)) (\<lambda>total_views.
     bind_exn (dict_get views_data ''uniques'' (PInt 0)) (\<lambda>unique_visitors.
     bind_exn (dict_get clones_data ''count'' (PInt 0)) (\<lambda>total_clones.
     bind_exn (dict_get clones_data ''uniques'' (PInt 0)) (\<lambda>unique_cloners.
       Inr (dict_display
         [(''total_views'', total_views), (''unique_visitors'', unique_visitors),
          (''total_clones'', total_clones), (''unique_cloners'', unique_cloners)])))))"

definition get_traffic_data :: "collector \<Rightarrow> world \<Rightarrow> string \<Rightarrow> string \<Rightarrow> (string \<times> pyval) list res" where
  "get_traffic_data self w owner repo =
     (let views_url = api_url self owner repo ''/traffic/views'';
          clones_url = api_url self owner repo ''/traffic/clones''
      in bind_res
           (except_HTTPError
              (bind_res (make_request self w views_url ''GET'') (\<lambda>views_response.
                 lift_res (response_json views_response)))
              zero_counts)
           (\<lambda>views_data.
         bind_res
           (except_HTTPError
              (bind_res (make_request self w clones_url ''GET'') (\<lambda>clones_response.
                 lift_res (response_json clones_response)))
              zero_counts)
           (\<lambda>clones_data. lift_res (traffic_fields views_data clones_data))))"

definition fork_entry :: "pyval \<Rightarrow> exn + pyval" where
  "fork_entry fork =
     bind_exn (bind_exn (subscript fork ''owner'') (\<lambda>owner. subscript owner ''login'')) (\<lambda>login.
     bind_exn (subscript fork ''created_at'') (\<lambda>created_at.
     bind_exn (subscript fork ''updated_at'') (\<lambda>updated_at.
     bind_exn (subscript fork ''stargazers_count'') (\<lambda>stars.
       Inr (PDict (dict_display
         [(''owner'', login), (''created_at'', created_at),
          (''last_updated'', updated_at), (''stars'', stars)]))))))"

definition get_fork_details :: "collector \<Rightarrow> world \<Rightarrow> string \<Rightarrow> string \<Rightarrow> pyval list res" where
  "get_fork_details self w owner repo =
     bind_res (make_request self w (api_url self owner repo ''/forks'') ''GET'') (\<lambda>response.
       lift_res
         (bind_exn (response_json response) (\<lambda>forks.
          bind_exn (py_iter forks) (comprehension fork_entry))))"

text \<open>
  The \<^verbatim>\<open>except Exception\<close> clause of \<^verbatim>\<open>collect_all_metrics\<close> logs and raises
  the same exception again, so it changes no result.
\<close>

definition collect_all_metrics :: "collector \<Rightarrow> world \<Rightarrow> string \<Rightarrow> string \<Rightarrow> (string \<times> pyval) list res" where
  "collect_all_metrics self w owner repo =
     bind_res (get_repo_basic_metrics self w owner repo) (\<lambda>basic_metrics.
     bind_res (get_traffic_data self w owner repo) (\<lambda>traffic_data.
     bind_res (get_fork_details self w owner repo) (\<lambda>fork_data.
       lift_res (Inr (dict_display
         ([(''timestamp'', PStr (datetime_now w)),
           (''repository'', PStr (owner @ ''/'' @ repo))]
          @ basic_metrics
          @ traffic_data
          @ [(''fork_count'', PInt (int (length fork_data))),
             (''fork_details'', PList fork_data)]))))))"

text \<open>The URLs of the requests in a trace, in order.\<close>

fun requested :: "event list \<Rightarrow> string list" where
  "requested [] = []"
| "requested (Requested m u h # evs) = u # requested evs"
| "requested (Slept t # evs) = requested evs"

text \<open>
  A call that raised something other than an \<^verbatim>\<open>HTTPError\<close>: no
  \<^verbatim>\<open>except HTTPError\<close> clause takes it.
\<close>

definition raised_other :: "exn + 'a \<Rightarrow> bool" where
  "raised_other r = (case r of Inl e \<Rightarrow> \<not> is_HTTPError e | Inr x \<Rightarrow> False)"

section \<open>Exporting a record\<close>

text \<open>
  \<^verbatim>\<open>export_data\<close> works on the caller's dictionary object, so here dictionaries
  and lists live in a store: an address is an index into the list of objects, a new
  object is put at the end, and a value is either immutable or a reference.
\<close>

datatype val = VNone | VBool bool | VInt int | VFloat real | VStr string | VRef nat

datatype obj = ODict "(string \<times> val) list" | OList "val list"

type_synonym heap = "obj list"

definition heap_lookup :: "heap \<Rightarrow> nat \<Rightarrow> obj option" where
  "heap_lookup h a = (if a < length h then Some (h ! a) else None)"

text \<open>
  What the function uses of the file system, the clock, \<^verbatim>\<open>str\<close>, pandas and the
  json module. These read the store and do not write to it: \<open>py_str h v\<close> is the
  text of \<^verbatim>\<open>str(v)\<close>; \<open>data_frame h a\<close> says whether
  \<^verbatim>\<open>pd.DataFrame\<close> raises on the list at \<open>a\<close>; \<open>to_csv h a path\<close> gives
  the exception \<^verbatim>\<open>to_csv\<close> raises, if any, and the text that reached the file,
  if the file was opened; \<open>json_dump h a\<close> gives the exception
  \<^verbatim>\<open>json.dump\<close> raises, if any, and the text it wrote to the open file before.
\<close>

record platform =
  path_exists :: "string \<Rightarrow> bool"
  makedirs :: "string \<Rightarrow> exn option"
  strftime_now :: string
  py_str :: "heap \<Rightarrow> val \<Rightarrow> string"
  data_frame :: "heap \<Rightarrow> nat \<Rightarrow> exn option"
  to_csv :: "heap \<Rightarrow> nat \<Rightarrow> string \<Rightarrow> exn option \<times> string option"
  open_w :: "string \<Rightarrow> exn option"
  json_dump :: "heap \<Rightarrow> nat \<Rightarrow> exn option \<times> string"

datatype fs_event = MadeDir string | Truncated string | Wrote string string

type_synonym export_result = "(exn + unit) \<times> heap \<times> fs_event list"

definition generate_filename :: "platform \<Rightarrow> string \<Rightarrow> string \<Rightarrow> string" where
  "generate_filename pf base_name format = base_name @ ''_'' @ strftime_now pf @ ''.'' @ format"

text \<open>\<^verbatim>\<open>os.path.join\<close> of two components, on a POSIX system.\<close>

definition os_path_join :: "string \<Rightarrow> string \<Rightarrow> string" where
  "os_path_join a b =
     (case b of
        c # cs \<Rightarrow>
          if c = CHR ''/'' then b
          else if a = [] then b
          else if last a = CHR ''/'' then a @ b
          else a @ ''/'' @ b
      | [] \<Rightarrow> if a = [] then [] else if last a = CHR ''/'' then a else a @ ''/'')"

text \<open>
  The statement \<^verbatim>\<open>export_data['fork_details'] = str(export_data.get('fork_details', []))\<close>
  on the copy at address \<open>export_copy\<close>. The right-hand side comes first: a list has no
  \<^verbatim>\<open>get\<close>; for a dictionary the default \<^verbatim>\<open>[]\<close> is a new list object. The
  assignment then writes to the object at \<open>export_copy\<close>.
\<close>

definition flatten_fork_details :: "platform \<Rightarrow> heap \<Rightarrow> nat \<Rightarrow> exn + heap" where
  "flatten_fork_details pf h export_copy =
     (case heap_lookup h export_copy of
        Some (ODict kvs) \<Rightarrow>
          let default = length h;
              h1 = h @ [OList []];
              text = py_str pf h1 (get_default kvs ''fork_details'' (VRef default))
          in Inr (h1[export_copy := ODict (dict_set kvs ''fork_details'' (VStr text))])
      | Some (OList xs) \<Rightarrow> Inl AttributeError
      | None \<Rightarrow> Inl AttributeError)"

text \<open>The two writers and the \<^verbatim>\<open>else\<close> branch (source lines 296 to 304).\<close>

definition write_out :: "platform \<Rightarrow> heap \<Rightarrow> nat \<Rightarrow> nat \<Rightarrow> string \<Rightarrow> string \<Rightarrow> (exn + unit) \<times> fs_event list" where
  "write_out pf h data df filename format =
     (if lower format = ''csv'' then
        (case fst (to_csv pf h df filename) of Some e \<Rightarrow> Inl e | None \<Rightarrow> Inr (),
         case snd (to_csv pf h df filename) of
           None \<Rightarrow> []
         | Some text \<Rightarrow> [Truncated filename, Wrote filename text])
      else if lower format = ''json'' then
        (case open_w pf filename of
           Some e \<Rightarrow> (Inl e, [])
         | None \<Rightarrow>
             (case fst (json_dump pf h data) of Some e \<Rightarrow> Inl e | None \<Rightarrow> Inr (),
              [Truncated filename, Wrote filename (snd (json_dump pf h data))]))
      else (Inl (ValueError (''Unsupported export format: '' @ format)), []))"

text \<open>
  The \<^verbatim>\<open>try\<close> block (source lines 287 to 306); its \<^verbatim>\<open>except\<close> clause logs and
  raises the same exception again. \<^verbatim>\<open>data.copy()\<close> makes a new object with the
  items of the old one; a value that is no dictionary and no list has no \<^verbatim>\<open>copy\<close>.
\<close>

definition export_body :: "platform \<Rightarrow> heap \<Rightarrow> nat \<Rightarrow> string \<Rightarrow> string \<Rightarrow> export_result" where
  "export_body pf h data filename format =
     (case heap_lookup h data of
        None \<Rightarrow> (Inl AttributeError, h, [])
      | Some original \<Rightarrow>
          let export_copy = length h;
              h1 = h @ [original]
          in (case (if lower format = ''csv'' then flatten_fork_details pf h1 export_copy
                    else Inr h1) of
                Inl e \<Rightarrow> (Inl e, h1, [])
              | Inr h2 \<Rightarrow>
                  let rows = length h2;
                      h3 = h2 @ [OList [VRef export_copy]]
                  in (case data_frame pf h3 rows of
                        Some e \<Rightarrow> (Inl e, h3, [])
                      | None \<Rightarrow>
                          (fst (write_out pf h3 data rows filename format), h3,
                           snd (write_out pf h3 data rows filename format)))))"

definition export_data :: "platform \<Rightarrow> heap \<Rightarrow> nat \<Rightarrow> string \<Rightarrow> string \<Rightarrow> string \<Rightarrow> export_result" where
  "export_data pf h data output_dir base_name format =
     (case (if path_exists pf output_dir then None else Some (makedirs pf output_dir)) of
        Some (Some e) \<Rightarrow> (Inl e, h, [])
      | made \<Rightarrow>
          let filename = os_path_join output_dir (generate_filename pf base_name format);
              dirs = (case made of None \<Rightarrow> [] | Some u \<Rightarrow> [MadeDir output_dir]);
              r = export_body pf h data filename format
          in (fst r, fst (snd r), dirs @ snd (snd r)))"

section \<open>Example responses and worlds\<close>

definition not_found :: response where
  "not_found = \<lparr> status_code = 404, response_headers = [],
                  json_body = Some (PDict [(''message'', PStr ''Not Found'')]) \<rparr>"

definition rate_limited :: response where
  "rate_limited = \<lparr> status_code = 403,
       response_headers = [(''X-RateLimit-Remaining'', ''0''), (''X-RateLimit-Reset'', ''1700000060'')],
       json_body = Some (PDict [(''message'', PStr ''API rate limit exceeded'')]) \<rparr>"

definition ok_response :: response where
  "ok_response = \<lparr> status_code = 200,
       response_headers = [(''X-RateLimit-Remaining'', ''4999''), (''X-RateLimit-Reset'', ''1700000060'')],
       json_body = Some (PDict [(''count'', PInt 5), (''uniques'', PInt 2)]) \<rparr>"

definition quiet_clock :: "string \<Rightarrow> nat \<Rightarrow> real" where
  "quiet_clock url k = 1700000000"

definition world_not_found :: world where
  "world_not_found =
     \<lparr> remote = (\<lambda>method url k. Responds not_found),
       time_time = quiet_clock, datetime_now = ''2023-11-14T22:13:20'',
       fromtimestamp_edge = (\<lambda>t. True), fromtimestamp_error = (\<lambda>t. YearOutOfRange) \<rparr>"

definition world_down :: world where
  "world_down =
     \<lparr> remote = (\<lambda>method url k. Raises (ConnectionError ''connection refused'')),
       time_time = quiet_clock, datetime_now = ''2023-11-14T22:13:20'',
       fromtimestamp_edge = (\<lambda>t. True), fromtimestamp_error = (\<lambda>t. YearOutOfRange) \<rparr>"

definition world_limited_once :: world where
  "world_limited_once =
     \<lparr> remote = (\<lambda>method url k. if k = 0 then Responds rate_limited else Responds ok_response),
       time_time = quiet_clock, datetime_now = ''2023-11-14T22:13:20'',
       fromtimestamp_edge = (\<lambda>t. True), fromtimestamp_error = (\<lambda>t. YearOutOfRange) \<rparr>"


definition rate_limited_millis :: response where
  "rate_limited_millis = \<lparr> status_code = 403,
       response_headers = [(''X-RateLimit-Remaining'', ''0''),
                           (''X-RateLimit-Reset'', ''1700000060000'')],
       json_body = Some (PDict [(''message'', PStr ''API rate limit exceeded'')]) \<rparr>"

definition rate_limited_no_reset :: response where
  "rate_limited_no_reset = \<lparr> status_code = 403,
       response_headers = [(''X-RateLimit-Remaining'', ''0'')],
       json_body = Some (PDict [(''message'', PStr ''API rate limit exceeded'')]) \<rparr>"


definition world_always :: "response \<Rightarrow> world" where
  "world_always r =
     \<lparr> remote = (\<lambda>method url k. Responds r),
       time_time = quiet_clock, datetime_now = ''2023-11-14T22:13:20'',
       fromtimestamp_edge = (\<lambda>t. True), fromtimestamp_error = (\<lambda>t. YearOutOfRange) \<rparr>"

definition repo_url :: string where
  "repo_url = ''https://api.github.com/repos/octo/lens''"

definition repo_json :: pyval where
  "repo_json = PDict [(''stargazers_count'', PInt 42), (''forks_count'', PInt 2),
     (''subscribers_count'', PInt 7), (''open_issues_count'', PInt 3),
     (''updated_at'', PStr ''2023-11-14T20:00:00Z'')]"

definition forks_json :: pyval where
  "forks_json = PList
     [PDict [(''owner'', PDict [(''login'', PStr ''alice'')]), (''created_at'', PStr ''2023-01-01T00:00:00Z''),
             (''updated_at'', PStr ''2023-02-01T00:00:00Z''), (''stargazers_count'', PInt 1)],
      PDict [(''owner'', PDict [(''login'', PStr ''bob'')]), (''created_at'', PStr ''2023-03-01T00:00:00Z''),
             (''updated_at'', PStr ''2023-04-01T00:00:00Z''), (''stargazers_count'', PInt 0)]]"

definition forbidden :: response where
  "forbidden = \<lparr> status_code = 403, response_headers = [],
       json_body = Some (PDict [(''message'', PStr ''Must have push access to repository'')]) \<rparr>"

definition ok_with :: "pyval \<Rightarrow> response" where
  "ok_with v = \<lparr> status_code = 200, response_headers = [], json_body = Some v \<rparr>"

definition octo_remote :: "string \<Rightarrow> string \<Rightarrow> nat \<Rightarrow> outcome" where
  "octo_remote method url k =
     (if url = ''https://api.github.com/repos/octo/lens'' then Responds (ok_with repo_json)
      else if url = ''https://api.github.com/repos/octo/lens/traffic/views'' then Responds forbidden
      else if url = ''https://api.github.com/repos/octo/lens/traffic/clones'' then Responds ok_response
      else if url = ''https://api.github.com/repos/octo/lens/forks'' then Responds (ok_with forks_json)
      else Responds not_found)"

definition world_octo :: world where
  "world_octo = \<lparr> remote = octo_remote, time_time = quiet_clock, datetime_now = ''2023-11-14T22:13:20'',
       fromtimestamp_edge = (\<lambda>t. True), fromtimestamp_error = (\<lambda>t. YearOutOfRange) \<rparr>"

definition world_octo_later :: world where
  "world_octo_later = \<lparr> remote = octo_remote, time_time = (\<lambda>url k. 1700000500), datetime_now = ''2023-11-14T22:21:40'',
       fromtimestamp_edge = (\<lambda>t. False), fromtimestamp_error = (\<lambda>t. TimeTOverflow) \<rparr>"

definition octo :: collector where
  "octo = init ''t'' 1 5"

definition octo_metrics :: "string \<Rightarrow> (string \<times> pyval) list" where
  "octo_metrics ts =
     [(''timestamp'', PStr ts),
      (''repository'', PStr ''octo/lens''), (''stars'', PInt 42),
      (''forks'', PInt 2), (''watchers'', PInt 7),
      (''open_issues'', PInt 3),
      (''last_updated'', PStr ''2023-11-14T20:00:00Z''),
      (''total_views'', PInt 0), (''unique_visitors'', PInt 0),
      (''total_clones'', PInt 5), (''unique_cloners'', PInt 2),
      (''fork_count'', PInt 2),
      (''fork_details'',
        PList
         [PDict
           [(''owner'', PStr ''alice''),
            (''created_at'', PStr ''2023-01-01T00:00:00Z''),
            (''last_updated'', PStr ''2023-02-01T00:00:00Z''),
            (''stars'', PInt 1)],
          PDict
           [(''owner'', PStr ''bob''),
            (''created_at'', PStr ''2023-03-01T00:00:00Z''),
            (''last_updated'', PStr ''2023-04-01T00:00:00Z''),
            (''stars'', PInt 0)]])]"

definition demo_platform :: platform where
  "demo_platform =
     \<lparr> path_exists = (\<lambda>p. False), makedirs = (\<lambda>p. None), strftime_now = ''20231114_221320'',
       py_str = (\<lambda>h v. case v of VRef a \<Rightarrow> (case heap_lookup h a of Some (OList xs) \<Rightarrow> if xs = [] then ''[]'' else ''[...]'' | _ \<Rightarrow> ''{...}'') | _ \<Rightarrow> ''?''),
       data_frame = (\<lambda>h a. None),
       to_csv = (\<lambda>h a p. (None, Some ''csv text'')),
       open_w = (\<lambda>p. None),
       json_dump = (\<lambda>h a. (None, ''json text'')) \<rparr>"

definition demo_heap :: heap where
  "demo_heap =
     [OList [VRef 1],
      ODict [(''owner'', VStr ''alice''), (''stars'', VInt 1)],
      ODict [(''timestamp'', VStr ''2023-11-14T22:13:20''), (''fork_count'', VInt 1), (''fork_details'', VRef 0)]]"

section \<open>Floats: basic facts\<close>

lemma rne_of_int: "rne (of_int m) = m"
  by (simp add: rne_def)



lemma round_double_exact:
  assumes "x \<noteq> 0" and "\<bar>x\<bar> / 2 powr (of_int (max \<lfloor>log 2 \<bar>x\<bar>\<rfloor> (- 1022)) - 52) = of_int m"
  shows "round_double x = x"
proof -
  let ?u = "2 powr (of_int (max \<lfloor>log 2 \<bar>x\<bar>\<rfloor> (- 1022)) - 52) :: real"
  have u: "0 < ?u" by simp
  have "of_int m * ?u = \<bar>x\<bar>"
    using assms(2) u by (metis nonzero_divide_eq_eq less_irrefl)
  then show ?thesis
    using assms by (simp add: round_double_def Let_def rne_of_int sgn_if)
qed

lemma round_double_of_int:
  assumes "\<bar>n\<bar> \<le> 2 ^ 53"
  shows "round_double (of_int n) = of_int n"
proof (cases "n = 0")
  case True
  then show ?thesis by (simp add: round_double_def)
next
  case False
  let ?x = "of_int n :: real"
  let ?e = "\<lfloor>log 2 \<bar>?x\<bar>\<rfloor>"
  have x1: "1 \<le> \<bar>?x\<bar>" using False by (simp flip: of_int_abs add: )
  have xle: "\<bar>?x\<bar> \<le> 2 ^ 53" using assms by (metis of_int_abs of_int_le_iff of_int_numeral of_int_power)
  have e0: "0 \<le> ?e" using x1 by simp
  have "\<bar>?x\<bar> \<le> 2 powr 53" using xle by simp
  then have "log 2 \<bar>?x\<bar> \<le> 53" using x1 by (subst log_le_iff) simp_all
  then have e53: "?e \<le> 53" by (simp add: floor_le_iff) 
  have m: "max ?e (- 1022) = ?e" using e0 by simp
  show ?thesis
  proof (cases "?e \<le> 52")
    case True
    have "2 powr (of_int ?e - 52) = (1 / 2 ^ nat (52 - ?e) :: real)"
    proof -
      have "of_int ?e - 52 = - real (nat (52 - ?e))" using True by simp
      then have "2 powr (of_int ?e - 52) = (2 powr (- real (nat (52 - ?e))) :: real)" by simp
      also have "\<dots> = 1 / 2 ^ nat (52 - ?e)"
        by (simp add: powr_minus powr_realpow inverse_eq_divide)
      finally show ?thesis .
    qed
    then have h: "\<bar>?x\<bar> / 2 powr (of_int (max ?e (- 1022)) - 52) = of_int (\<bar>n\<bar> * 2 ^ nat (52 - ?e))"
      using m by simp
    show ?thesis by (rule round_double_exact[OF _ h]) (use \<open>n \<noteq> 0\<close> in simp)
  next
    case False
    then have e: "?e = 53" using e53 by linarith
    then have "53 \<le> log 2 \<bar>?x\<bar>" by linarith
    then have "2 powr 53 \<le> \<bar>?x\<bar>" using x1 by (simp add: le_log_iff)
    then have "\<bar>?x\<bar> = 2 ^ 53" using xle by (simp add: powr_realpow[symmetric])
    then have h: "\<bar>?x\<bar> / 2 powr (of_int (max ?e (- 1022)) - 52) = of_int (2 ^ 52)"
      using e by simp
    show ?thesis by (rule round_double_exact[OF _ h]) (use \<open>n \<noteq> 0\<close> in simp)
  qed
qed

lemma round_double_numeral:
  "(numeral k :: int) \<le> 2 ^ 53 \<Longrightarrow> round_double (numeral k) = numeral k"
  using round_double_of_int[of "numeral k"] by simp

lemma int_to_float_small:
  assumes "\<bar>n\<bar> \<le> 2 ^ 53"
  shows "int_to_float n = Inr (of_int n)"
proof -
  have "\<bar>real_of_int n\<bar> \<le> 2 ^ 53"
    using assms by (metis of_int_abs of_int_le_iff of_int_numeral of_int_power)
  moreover have "(2::real) ^ 53 < 2 ^ 1024" by simp
  ultimately have "\<not> 2 ^ 1024 \<le> \<bar>real_of_int n\<bar>" by linarith
  then show ?thesis
    using round_double_of_int[OF assms] by (simp add: int_to_float_def)
qed


section \<open>The request loop: basic facts\<close>

declare make_request_loop.simps [simp del]

lemma py_int_reset: "py_int ''1700000060'' = Some 1700000060"
  by (simp add: py_int_def strip_def is_space_def py_digits_def is_digit_def digit_val_def
        int_max_str_digits_def)

lemma py_int_millis: "py_int ''1700000060000'' = Some 1700000060000"
  by (simp add: py_int_def strip_def is_space_def py_digits_def is_digit_def digit_val_def
        int_max_str_digits_def)


lemma time_sleep_error:
  "time_sleep secs = Inl e \<Longrightarrow>
   e = OverflowError ''timestamp too large to convert to C _PyTime_t''
   \<or> e = ValueError ''sleep length must be non-negative''"
  by (auto simp: time_sleep_def split: if_splits)

lemma lower_reset_name: "lower ''X-RateLimit-Reset'' = ''x-ratelimit-reset''"
  by code_simp

lemma header_int_error:
  "header_int r name = Inl e \<Longrightarrow> e = KeyError (lower name) \<or> (\<exists>s. e = ValueError s)"
  by (auto simp: header_int_def split: option.splits)

lemma int_minus_float_error:
  "int_minus_float n x = Inl e \<Longrightarrow> e = OverflowError ''int too large to convert to float''"
  by (auto simp: int_minus_float_def int_to_float_def Let_def split: sum.splits if_splits)

lemma new_RateLimitError_cases:
  "new_RateLimitError w t = RateLimitError t \<or> (\<exists>k. new_RateLimitError w t = stamp_exn k)"
  by (auto simp: new_RateLimitError_def fromtimestamp_def split: option.splits)

lemma stamp_exn_plain: "stamp_exn k \<noteq> Exception msg" "\<not> is_HTTPError (stamp_exn k)"
  by (cases k; simp)+

lemma try_body_Raise:
  assumes "try_body self w url meth retries = Inr (Raise e)"
  shows "\<not> is_HTTPError e \<and> e \<noteq> Exception msg"
proof -
  from assms consider
      (header) r where "header_int r ''X-RateLimit-Reset'' = Inl e"
    | (wait) n x where "int_minus_float n x = Inl e"
    | (limit) t where "e = new_RateLimitError w t"
    by (auto simp: try_body_def split: outcome.splits sum.splits option.splits if_splits)
  then show ?thesis
  proof cases
    case header
    then have "e = KeyError (lower ''X-RateLimit-Reset'') \<or> (\<exists>s. e = ValueError s)"
      by (rule header_int_error)
    then show ?thesis by auto
  next
    case wait
    then have "e = OverflowError ''int too large to convert to float''"
      by (rule int_minus_float_error)
    then show ?thesis by simp
  next
    case limit
    then consider "e = RateLimitError t" | k where "e = stamp_exn k"
      using new_RateLimitError_cases[of w t] by auto
    then show ?thesis by cases (simp_all add: stamp_exn_plain)
  qed
qed

lemma loop_enter:
  "int retries \<le> max_retries self \<Longrightarrow>
   make_request_loop self w url method retries =
     emit (Requested method url (headers self))
       (case iteration self w url method retries of
          Return response \<Rightarrow> (Inr response, [])
        | Raise e \<Rightarrow> (Inl e, [])
        | Retry secs \<Rightarrow>
            (case time_sleep secs of
               Inl e \<Rightarrow> (Inl e, [])
             | Inr u \<Rightarrow> emit (Slept secs) (make_request_loop self w url method (retries + 1))))"
  by (subst make_request_loop.simps) simp

lemma loop_exit:
  "\<not> int retries \<le> max_retries self \<Longrightarrow>
   make_request_loop self w url method retries = (Inl (Exception ''Maximum retries exceeded''), [])"
  by (subst make_request_loop.simps) simp

lemma iteration_Retry_budget:
  "iteration self w url method retries = Retry secs \<Longrightarrow> int retries < max_retries self"
  by (auto simp: iteration_def try_body_def except_handler_def
           split: sum.splits outcome.splits option.splits if_splits)

lemma iteration_no_Exception:
  "iteration self w url method retries \<noteq> Raise (Exception msg)"
proof (cases "try_body self w url method retries")
  case (Inl e)
  then show ?thesis by (simp add: iteration_def except_handler_def)
next
  case (Inr s)
  then show ?thesis
    using try_body_Raise[of self w url "method" retries "Exception msg" msg]
    by (auto simp: iteration_def)
qed




section \<open>Library functions at the edges of their domains\<close>

text \<open>
  What the model of \<^verbatim>\<open>int\<close> and of the conversion to float does on inputs at
  the edge: an integer of 310 digits does not turn into a float; the separators 28 to
  31 are not white space for \<^verbatim>\<open>int\<close>, the Latin-1 spaces are; a text of 4301
  digits is refused.
\<close>

lemma rne_ge_floor: "\<lfloor>y\<rfloor> \<le> rne y"
  by (simp add: rne_def Let_def)

lemma round_double_huge:
  assumes "2 ^ 1024 \<le> \<bar>x\<bar>"
  shows "2 ^ 1024 \<le> \<bar>round_double x\<bar>"
proof -
  let ?e = "\<lfloor>log 2 \<bar>x\<bar>\<rfloor>"
  let ?u = "2 powr (of_int ?e - 52) :: real"
  have pos: "0 < \<bar>x\<bar>" using assms by (smt (verit) zero_less_power)
  then have x0: "x \<noteq> 0" by simp
  have "(1024::real) \<le> log 2 \<bar>x\<bar>"
    using assms pos by (subst le_log_iff) (simp_all add: powr_realpow[symmetric])
  then have e: "1024 \<le> ?e" by (simp add: le_floor_iff)
  then have m: "max ?e (- 1022) = ?e" by simp
  have u: "0 < ?u" by simp
  have "2 powr (of_int ?e) \<le> \<bar>x\<bar>"
    using pos by (metis powr_le_iff of_int_floor_le less_numeral_extra(1) one_add_one
        one_less_numeral_iff semiring_norm(76)) 
  then have "2 powr 52 \<le> \<bar>x\<bar> / ?u"
    using u by (simp add: powr_diff le_divide_eq)
  then have "(2 ^ 52 :: real) \<le> \<bar>x\<bar> / ?u" by simp
  then have "(2 ^ 52 :: int) \<le> \<lfloor>\<bar>x\<bar> / ?u\<rfloor>" by (simp add: le_floor_iff)
  then have r: "(2 ^ 52 :: int) \<le> rne (\<bar>x\<bar> / ?u)"
    using rne_ge_floor[of "\<bar>x\<bar> / ?u"] by linarith
  then have "(2 ^ 52 :: real) \<le> of_int (rne (\<bar>x\<bar> / ?u))"
    by (metis of_int_le_iff of_int_numeral of_int_power)
  then have "2 ^ 52 * ?u \<le> of_int (rne (\<bar>x\<bar> / ?u)) * ?u"
    using u by simp
  moreover have "2 ^ 52 * ?u = 2 powr (of_int ?e)"
    by (simp add: powr_diff)
  moreover have "(2::real) ^ 1024 \<le> 2 powr (of_int ?e)"
  proof -
    have "real_of_int 1024 \<le> real_of_int ?e" using e by (simp only: of_int_le_iff)
    then have "(2::real) powr (real_of_int 1024) \<le> 2 powr (of_int ?e)"
      by (intro powr_mono) simp_all
    moreover have "(2::real) powr (real_of_int 1024) = 2 ^ 1024" by simp
    ultimately show ?thesis by (simp only:)
  qed
  ultimately have big: "2 ^ 1024 \<le> of_int (rne (\<bar>x\<bar> / ?u)) * ?u" by (simp only:)
  have "\<bar>round_double x\<bar> = \<bar>of_int (rne (\<bar>x\<bar> / ?u)) * ?u\<bar>"
    using x0 m by (simp add: round_double_def Let_def abs_mult sgn_if)
  then show ?thesis using big by linarith
qed

lemma int_to_float_huge:
  assumes "2 ^ 1024 \<le> \<bar>real_of_int n\<bar>"
  shows "int_to_float n = Inl (OverflowError ''int too large to convert to float'')"
proof -
  have "2 ^ 1024 \<le> \<bar>round_double (real_of_int n)\<bar>"
    using assms by (rule round_double_huge)
  then show ?thesis by (simp add: int_to_float_def Let_def)
qed

lemma int_to_float_overflow:
  "int_to_float (10 ^ 309) = Inl (OverflowError ''int too large to convert to float'')"
  by (rule int_to_float_huge) simp

lemma py_int_separators: "py_int [CHR 0x1C, CHR ''7'', CHR 0x1F] = None"
  by (simp add: py_int_def strip_def is_space_def py_digits_def is_digit_def digit_val_def
        int_max_str_digits_def)

lemma py_int_latin1_space: "py_int [CHR 0xA0, CHR ''7'', CHR 0x85] = Some 7"
  by (simp add: py_int_def strip_def is_space_def py_digits_def is_digit_def digit_val_def
        int_max_str_digits_def)

lemma py_int_too_long: "py_int (replicate 4301 (CHR ''1'')) = None"
proof -
  have d: "is_digit (CHR ''1'')" "\<not> is_space (CHR ''1'')"
    by (simp_all add: is_digit_def is_space_def)
  have "strip (replicate 4301 (CHR ''1'')) = replicate 4301 (CHR ''1'')"
    using d(2) by (simp add: strip_def dropWhile_eq_self_iff[THEN iffD2] hd_replicate)
  moreover have "py_digits (replicate 4301 (CHR ''1'')) = None"
    using d(1) by (simp add: py_digits_def int_max_str_digits_def)
  moreover have "replicate 4301 (CHR ''1'') = CHR ''1'' # replicate 4300 (CHR ''1'')"
    by (simp add: replicate_Suc[symmetric] del: replicate_Suc)
  ultimately show ?thesis by (simp add: py_int_def)
qed

section \<open>Successful responses\<close>



section \<open>Rate-limited responses\<close>




lemma rate_limited_reset: "header_int rate_limited ''X-RateLimit-Reset'' = Inr 1700000060"
  by (simp add: header_int_def rate_limited_def py_int_reset)

lemma rate_limited_wait: "int_minus_float 1700000060 1700000000 = Inr 60"
  by (simp add: int_minus_float_def int_to_float_small round_double_numeral)



text \<open>
  Claim C5 says that every response with status 403 and the
  \<^verbatim>\<open>X-RateLimit-Remaining\<close> header that arrives when no retry remains, or whose
  wait is not positive, makes \<^verbatim>\<open>_make_request\<close> raise \<^verbatim>\<open>RateLimitError\<close>
  with the reset time of the header. Two such responses for which the code raises
  something else, with \<open>max_retries = 0\<close>: one whose reset time is in milliseconds,
  which \<^verbatim>\<open>datetime.fromtimestamp\<close> in the constructor of \<^verbatim>\<open>RateLimitError\<close>
  refuses, and one without the \<^verbatim>\<open>X-RateLimit-Reset\<close> header.
\<close>

theorem rate_limit_error_not_always_raised:
  "make_request_loop (init ''t'' 0 5) (world_always rate_limited_millis) repo_url ''GET'' 0 =
     (Inl (ValueError ''year %i is out of range''),
      [Requested ''GET'' repo_url (headers (init ''t'' 0 5))])
   \<and> make_request_loop (init ''t'' 0 5) (world_always rate_limited_no_reset) repo_url ''GET'' 0 =
     (Inl (KeyError ''x-ratelimit-reset''),
      [Requested ''GET'' repo_url (headers (init ''t'' 0 5))])"
proof -
  have millis: "iteration (init ''t'' 0 5) (world_always rate_limited_millis) repo_url ''GET'' 0
                  = Raise (ValueError ''year %i is out of range'')"
    by (simp add: iteration_def try_body_def world_always_def rate_limited_millis_def
          header_int_def py_int_millis int_minus_float_def int_to_float_small init_def
          new_RateLimitError_def fromtimestamp_def)
  have no_reset: "iteration (init ''t'' 0 5) (world_always rate_limited_no_reset) repo_url ''GET'' 0
                  = Raise (KeyError ''x-ratelimit-reset'')"
    by (simp add: iteration_def try_body_def world_always_def rate_limited_no_reset_def
          header_int_def lower_reset_name)
  show ?thesis
    using millis no_reset by (simp add: loop_enter emit_def init_def)
qed

text \<open>
  Claim C5, amended. A response with status 403 and the \<^verbatim>\<open>X-RateLimit-Remaining\<close>
  header, whose \<^verbatim>\<open>X-RateLimit-Reset\<close> header is there and is an integer that
  turns into a float and that \<^verbatim>\<open>datetime.fromtimestamp\<close> can turn into a date, and
  which arrives when no retry remains or whose wait is not positive, makes
  \<^verbatim>\<open>_make_request\<close> raise \<^verbatim>\<open>RateLimitError\<close> with the reset time of the
  header; the pass issues its one request and no sleep.
\<close>

theorem rate_limit_exceeded_no_sleep:
  assumes "int retries \<le> max_retries self"
    and "remote w method url retries = Responds r"
    and "status_code r = 403"
    and "''X-RateLimit-Remaining'' \<in> fst ` set (response_headers r)"
    and "header_int r ''X-RateLimit-Reset'' = Inr reset_time"
    and "int_minus_float reset_time (time_time w url retries) = Inr wait_time"
    and "max_retries self \<le> int retries \<or> wait_time \<le> 0"
    and "fromtimestamp w reset_time = None"
  shows "make_request_loop self w url method retries =
           (Inl (RateLimitError reset_time), [Requested method url (headers self)])"
proof -
  have "iteration self w url method retries = Raise (RateLimitError reset_time)"
    using assms by (auto simp add: iteration_def try_body_def new_RateLimitError_def)
  then show ?thesis using assms(1) by (simp add: loop_enter emit_def)
qed

theorem rate_limit_exceeded_no_sleep_witness:
  "make_request_loop (init ''t'' 0 5) world_limited_once repo_url ''GET'' 0 =
     (Inl (RateLimitError 1700000060),
      [Requested ''GET'' repo_url (headers (init ''t'' 0 5))])"
  using rate_limit_exceeded_no_sleep
          [of 0 "init ''t'' 0 5" world_limited_once "''GET''" repo_url rate_limited
              1700000060 60]
  by (simp add: init_def world_limited_once_def rate_limited_reset rate_limited_wait
        quiet_clock_def fromtimestamp_def)
     (auto simp: rate_limited_def)

section \<open>Network failures and exponential backoff\<close>








section \<open>HTTP errors that are not rate limits\<close>

text \<open>
  An error response that is not taken for a rate limit, received while retries remain,
  ends the pass with a backoff sleep and another pass.
\<close>

lemma http_error_is_caught:
  assumes "remote w meth url retries = Responds r"
    and "400 \<le> status_code r" and "status_code r < 600"
    and "status_code r \<noteq> 403 \<or> ''X-RateLimit-Remaining'' \<notin> fst ` set (response_headers r)"
    and "int retries < max_retries self"
  shows "iteration self w url meth retries = Retry (real_of_int (retry_delay self * 2 ^ retries))"
  using assms by (auto simp: iteration_def try_body_def raise_for_status_def except_handler_def)

lemma iteration_not_found:
  "iteration (init ''t'' 3 5) world_not_found u ''GET'' k =
     (if k < 3 then Retry (real_of_int (5 * 2 ^ k))
      else Raise (RequestException (HTTPError not_found)))"
  by (simp add: iteration_def try_body_def world_not_found_def not_found_def
      raise_for_status_def except_handler_def init_def)

text \<open>
  Claim C1 says that a response with an error status that is not a rate limit makes
  \<^verbatim>\<open>_make_request\<close> raise \<^verbatim>\<open>HTTPError\<close> at once, with no retry and no sleep.
  The \<^verbatim>\<open>HTTPError\<close> of \<^verbatim>\<open>raise_for_status\<close> is raised inside the
  \<^verbatim>\<open>try\<close> block and is a \<^verbatim>\<open>RequestException\<close>, so the \<^verbatim>\<open>except\<close>
  clause catches it. With the default collector and a service that answers 404 every
  time, the call issues four requests and sleeps 5, 10 and 20 seconds before it raises.
\<close>

theorem http_error_retried_with_backoff:
  "make_request (init ''t'' 3 5) world_not_found repo_url ''GET'' =
    (Inl (RequestException (HTTPError not_found)),
     [Requested ''GET'' repo_url (headers (init ''t'' 3 5)), Slept 5,
      Requested ''GET'' repo_url (headers (init ''t'' 3 5)), Slept 10,
      Requested ''GET'' repo_url (headers (init ''t'' 3 5)), Slept 20,
      Requested ''GET'' repo_url (headers (init ''t'' 3 5))])"
  by (simp add: make_request_def make_request_loop.simps iteration_not_found emit_def
        time_sleep_def)
     (simp add: init_def)

section \<open>The fallback after the loop\<close>

lemma loop_no_fallback:
  "int retries \<le> max_retries self \<Longrightarrow>
   fst (make_request_loop self w url method retries) \<noteq> Inl (Exception msg)"
proof (induction self w url "method" retries rule: make_request_loop.induct)
  case (1 self w url meth retries)
  show ?case
  proof (cases "iteration self w url meth retries")
    case (Return r)
    then show ?thesis using "1.prems" by (simp add: loop_enter emit_def)
  next
    case (Raise e)
    then show ?thesis
      using "1.prems" iteration_no_Exception[of self w url meth retries msg]
      by (auto simp add: loop_enter emit_def)
  next
    case (Retry secs)
    then have budget: "int (retries + 1) \<le> max_retries self"
      using iteration_Retry_budget by fastforce
    show ?thesis
    proof (cases "time_sleep secs")
      case (Inl e)
      then have "e \<noteq> Exception msg"
        using time_sleep_error by fastforce
      then show ?thesis using "1.prems" Retry Inl by (simp add: loop_enter emit_def)
    next
      case (Inr u)
      then show ?thesis
        using "1.prems" Retry "1.IH"[OF "1.prems" Retry Inr budget]
        by (simp add: loop_enter emit_def)
    qed
  qed
qed

text \<open>
  Claim C9. With \<open>max_retries \<ge> 0\<close> the loop of \<^verbatim>\<open>_make_request\<close> always ends
  from inside its body, by a \<^verbatim>\<open>return\<close> or a \<^verbatim>\<open>raise\<close> there: the call never
  raises the \<^verbatim>\<open>Exception\<close> that follows the loop. (The loop is a total function:
  every call ends.)
\<close>

theorem fallback_unreachable:
  assumes "0 \<le> max_retries self"
  shows "fst (make_request self w url method) \<noteq> Inl (Exception msg)"
  using assms loop_no_fallback[of 0 self w url "method" msg] by (simp add: make_request_def)

theorem fallback_unreachable_witness:
  "0 \<le> max_retries (init ''t'' 3 5)
   \<and> fst (make_request (init ''t'' 3 5) world_down repo_url ''GET'')
       \<noteq> Inl (Exception ''Maximum retries exceeded'')"
  using fallback_unreachable
          [of "init ''t'' 3 5" world_down repo_url "''GET''" "''Maximum retries exceeded''"]
  by (simp add: init_def)

section \<open>Results and traces of sequenced calls\<close>

lemma fst_bind_res:
  "fst (bind_res m f) = (case fst m of Inl e \<Rightarrow> Inl e | Inr x \<Rightarrow> fst (f x))"
  by (simp add: bind_res_def split: sum.splits)

lemma snd_bind_res:
  "snd (bind_res m f) = (case fst m of Inl e \<Rightarrow> snd m | Inr x \<Rightarrow> snd m @ snd (f x))"
  by (simp add: bind_res_def split: sum.splits)

lemma fst_lift_res: "fst (lift_res r) = r"
  by (simp add: lift_res_def)

lemma snd_lift_res: "snd (lift_res r) = []"
  by (simp add: lift_res_def)

lemma fst_except_HTTPError:
  "fst (except_HTTPError m d) =
     (case fst m of Inl e \<Rightarrow> if is_HTTPError e then Inr d else Inl e | Inr x \<Rightarrow> Inr x)"
  by (simp add: except_HTTPError_def split: sum.splits)

lemma snd_except_HTTPError: "snd (except_HTTPError m d) = snd m"
  by (simp add: except_HTTPError_def split: sum.splits)

lemma dict_display_4:
  "k1 \<noteq> k2 \<Longrightarrow> k1 \<noteq> k3 \<Longrightarrow> k1 \<noteq> k4 \<Longrightarrow> k2 \<noteq> k3 \<Longrightarrow> k2 \<noteq> k4 \<Longrightarrow> k3 \<noteq> k4 \<Longrightarrow>
   dict_display [(k1, v1), (k2, v2), (k3, v3), (k4, v4)] = [(k1, v1), (k2, v2), (k3, v3), (k4, v4)]"
  by (simp add: dict_display_def dict_set_def)

lemma zero_counts_eq: "zero_counts = PDict [(''count'', PInt 0), (''uniques'', PInt 0)]"
  by (simp add: zero_counts_def dict_display_def dict_set_def)

lemma traffic_fields_dicts:
  "traffic_fields (PDict vs) (PDict cs) =
     Inr [(''total_views'', get_default vs ''count'' (PInt 0)),
          (''unique_visitors'', get_default vs ''uniques'' (PInt 0)),
          (''total_clones'', get_default cs ''count'' (PInt 0)),
          (''unique_cloners'', get_default cs ''uniques'' (PInt 0))]"
  by (simp add: traffic_fields_def bind_exn_def dict_display_4)

lemma response_json_not_HTTPError: "response_json r = Inl e \<Longrightarrow> \<not> is_HTTPError e"
  by (auto simp: response_json_def split: option.splits)

lemma traffic_data_result:
  "fst (get_traffic_data self w owner repo) =
     bind_exn
       (case fst (make_request self w (api_url self owner repo ''/traffic/views'') ''GET'') of
          Inl e \<Rightarrow> if is_HTTPError e then Inr zero_counts else Inl e
        | Inr r \<Rightarrow> response_json r)
       (\<lambda>views_data.
     bind_exn
       (case fst (make_request self w (api_url self owner repo ''/traffic/clones'') ''GET'') of
          Inl e \<Rightarrow> if is_HTTPError e then Inr zero_counts else Inl e
        | Inr r \<Rightarrow> response_json r)
       (\<lambda>clones_data. traffic_fields views_data clones_data))"
  by (auto simp add: get_traffic_data_def Let_def fst_bind_res fst_except_HTTPError fst_lift_res
        bind_exn_def dest: response_json_not_HTTPError split: sum.splits)

text \<open>
  Claim C2. \<^verbatim>\<open>get_traffic_data\<close> guards its two calls separately. Whatever the
  other call does, a call that raised \<^verbatim>\<open>HTTPError\<close> contributes the counts of
  \<^verbatim>\<open>{'count': 0, 'uniques': 0}\<close> and a call that returned a JSON object
  contributes the counts of that object; an exception that is not an
  \<^verbatim>\<open>HTTPError\<close> (a network error, a \<^verbatim>\<open>RateLimitError\<close>) raised by the
  views call, or by the clones call once the views data is there, leaves
  \<^verbatim>\<open>get_traffic_data\<close> as it is.
\<close>

theorem traffic_sub_resources_guarded_independently:
  assumes views: "views = fst (make_request self w (api_url self owner repo ''/traffic/views'') ''GET'')"
    and clones: "clones = fst (make_request self w (api_url self owner repo ''/traffic/clones'') ''GET'')"
    and result: "result = fst (get_traffic_data self w owner repo)"
  shows
   "(\<forall>e. views = Inl e \<and> \<not> is_HTTPError e \<longrightarrow> result = Inl e)
  \<and> (\<forall>e e'. views = Inl e \<and> is_HTTPError e \<and> clones = Inl e' \<and> \<not> is_HTTPError e'
        \<longrightarrow> result = Inl e')
  \<and> (\<forall>r vd e'. views = Inr r \<and> json_body r = Some vd \<and> clones = Inl e' \<and> \<not> is_HTTPError e'
        \<longrightarrow> result = Inl e')
  \<and> (\<forall>e e'. views = Inl e \<and> is_HTTPError e \<and> clones = Inl e' \<and> is_HTTPError e'
        \<longrightarrow> result = Inr [(''total_views'', PInt 0), (''unique_visitors'', PInt 0),
                           (''total_clones'', PInt 0), (''unique_cloners'', PInt 0)])
  \<and> (\<forall>e r cs. views = Inl e \<and> is_HTTPError e \<and> clones = Inr r \<and> json_body r = Some (PDict cs)
        \<longrightarrow> result = Inr [(''total_views'', PInt 0), (''unique_visitors'', PInt 0),
                           (''total_clones'', get_default cs ''count'' (PInt 0)),
                           (''unique_cloners'', get_default cs ''uniques'' (PInt 0))])
  \<and> (\<forall>r vs e'. views = Inr r \<and> json_body r = Some (PDict vs) \<and> clones = Inl e' \<and> is_HTTPError e'
        \<longrightarrow> result = Inr [(''total_views'', get_default vs ''count'' (PInt 0)),
                           (''unique_visitors'', get_default vs ''uniques'' (PInt 0)),
                           (''total_clones'', PInt 0), (''unique_cloners'', PInt 0)])
  \<and> (\<forall>r vs r' cs. views = Inr r \<and> json_body r = Some (PDict vs)
                  \<and> clones = Inr r' \<and> json_body r' = Some (PDict cs)
        \<longrightarrow> result = Inr [(''total_views'', get_default vs ''count'' (PInt 0)),
                           (''unique_visitors'', get_default vs ''uniques'' (PInt 0)),
                           (''total_clones'', get_default cs ''count'' (PInt 0)),
                           (''unique_cloners'', get_default cs ''uniques'' (PInt 0))])"
proof -
  note r = result[unfolded traffic_data_result, folded views clones]
  have zz: "get_default [(''count'', PInt 0), (''uniques'', PInt 0)] ''count'' (PInt 0) = PInt 0"
           "get_default [(''count'', PInt 0), (''uniques'', PInt 0)] ''uniques'' (PInt 0) = PInt 0"
    by (simp_all add: get_default_def)
  have p1: "\<forall>e. views = Inl e \<and> \<not> is_HTTPError e \<longrightarrow> result = Inl e"
    using r by (simp add: bind_exn_def)
  have p2: "\<forall>e e'. views = Inl e \<and> is_HTTPError e \<and> clones = Inl e' \<and> \<not> is_HTTPError e'
        \<longrightarrow> result = Inl e'"
    using r by (simp add: bind_exn_def)
  have p3: "\<forall>r vd e'. views = Inr r \<and> json_body r = Some vd \<and> clones = Inl e' \<and> \<not> is_HTTPError e'
        \<longrightarrow> result = Inl e'"
    using r by (simp add: bind_exn_def response_json_def)
  have p4: "\<forall>e e'. views = Inl e \<and> is_HTTPError e \<and> clones = Inl e' \<and> is_HTTPError e'
        \<longrightarrow> result = Inr [(''total_views'', PInt 0), (''unique_visitors'', PInt 0),
                           (''total_clones'', PInt 0), (''unique_cloners'', PInt 0)]"
    using r by (simp add: bind_exn_def zero_counts_eq traffic_fields_dicts zz)
  have p5: "\<forall>e r cs. views = Inl e \<and> is_HTTPError e \<and> clones = Inr r \<and> json_body r = Some (PDict cs)
        \<longrightarrow> result = Inr [(''total_views'', PInt 0), (''unique_visitors'', PInt 0),
                           (''total_clones'', get_default cs ''count'' (PInt 0)),
                           (''unique_cloners'', get_default cs ''uniques'' (PInt 0))]"
    using r by (simp add: bind_exn_def response_json_def zero_counts_eq traffic_fields_dicts zz)
  have p6: "\<forall>r vs e'. views = Inr r \<and> json_body r = Some (PDict vs) \<and> clones = Inl e' \<and> is_HTTPError e'
        \<longrightarrow> result = Inr [(''total_views'', get_default vs ''count'' (PInt 0)),
                           (''unique_visitors'', get_default vs ''uniques'' (PInt 0)),
                           (''total_clones'', PInt 0), (''unique_cloners'', PInt 0)]"
    using r by (simp add: bind_exn_def response_json_def zero_counts_eq traffic_fields_dicts zz)
  have p7: "\<forall>r vs r' cs. views = Inr r \<and> json_body r = Some (PDict vs)
                  \<and> clones = Inr r' \<and> json_body r' = Some (PDict cs)
        \<longrightarrow> result = Inr [(''total_views'', get_default vs ''count'' (PInt 0)),
                           (''unique_visitors'', get_default vs ''uniques'' (PInt 0)),
                           (''total_clones'', get_default cs ''count'' (PInt 0)),
                           (''unique_cloners'', get_default cs ''uniques'' (PInt 0))]"
    using r by (simp add: bind_exn_def response_json_def traffic_fields_dicts)
  from p1 p2 p3 p4 p5 p6 p7 show ?thesis by (intro conjI)
qed

section \<open>The order of the requests\<close>

lemma requested_emit_Requested: "requested (snd (emit (Requested m u h) r)) = u # requested (snd r)"
  by (simp add: emit_def)

lemma requested_emit_Slept: "requested (snd (emit (Slept t) r)) = requested (snd r)"
  by (simp add: emit_def)

lemma requested_loop:
  "\<exists>n. requested (snd (make_request_loop self w url meth retries)) = replicate n url
       \<and> (int retries \<le> max_retries self \<longrightarrow> 0 < n)"
proof (induction self w url meth retries rule: make_request_loop.induct)
  case (1 self w url meth retries)
  show ?case
  proof (cases "int retries \<le> max_retries self")
    case False
    then show ?thesis by (simp add: loop_exit)
  next
    case enter: True
    show ?thesis
    proof (cases "iteration self w url meth retries")
      case (Return r)
      then have "requested (snd (make_request_loop self w url meth retries)) = replicate 1 url"
        using enter by (simp add: loop_enter emit_def)
      then show ?thesis by blast
    next
      case (Raise e)
      then have "requested (snd (make_request_loop self w url meth retries)) = replicate 1 url"
        using enter by (simp add: loop_enter emit_def)
      then show ?thesis by blast
    next
      case (Retry secs)
      show ?thesis
      proof (cases "time_sleep secs")
        case (Inl e)
        then have "requested (snd (make_request_loop self w url meth retries)) = replicate 1 url"
          using enter Retry by (simp add: loop_enter emit_def)
        then show ?thesis by blast
      next
        case (Inr u)
        from "1.IH"[OF enter Retry Inr] obtain n where
          n: "requested (snd (make_request_loop self w url meth (retries + 1))) = replicate n url"
          by blast
        have "requested (snd (make_request_loop self w url meth retries)) = replicate (Suc n) url"
          using enter Retry Inr n by (simp add: loop_enter emit_def)
        then show ?thesis by blast
      qed
    qed
  qed
qed

lemma requested_make_request:
  "\<exists>n. requested (snd (make_request self w url meth)) = replicate n url
       \<and> (0 \<le> max_retries self \<longrightarrow> 0 < n)"
  using requested_loop[of self w url meth 0] by (simp add: make_request_def)

lemma make_request_Inr_budget:
  "fst (make_request self w url meth) = Inr r \<Longrightarrow> 0 \<le> max_retries self"
  by (rule ccontr) (simp add: make_request_def loop_exit)

lemma requested_append: "requested (xs @ ys) = requested xs @ requested ys"
  by (induction xs rule: requested.induct) simp_all

lemma basic_fields_Inr:
  "basic_fields data = Inr bm \<Longrightarrow>
   \<exists>a b c d e. bm = [(''stars'', a), (''forks'', b), (''watchers'', c),
                      (''open_issues'', d), (''last_updated'', e)]"
  by (auto simp: basic_fields_def bind_exn_def dict_display_def dict_set_def split: sum.splits)

lemma traffic_fields_Inr:
  "traffic_fields vd cd = Inr td \<Longrightarrow>
   \<exists>a b c d. td = [(''total_views'', a), (''unique_visitors'', b),
                    (''total_clones'', c), (''unique_cloners'', d)]"
  by (auto simp: traffic_fields_def bind_exn_def dict_display_def dict_set_def split: sum.splits)

lemma basic_metrics_Inr:
  "fst (get_repo_basic_metrics self w owner repo) = Inr bm \<Longrightarrow>
   0 \<le> max_retries self \<and>
   (\<exists>a b c d e. bm = [(''stars'', a), (''forks'', b), (''watchers'', c),
                      (''open_issues'', d), (''last_updated'', e)])"
  by (auto simp: get_repo_basic_metrics_def fst_bind_res fst_lift_res bind_exn_def
           split: sum.splits dest: basic_fields_Inr make_request_Inr_budget)

lemma traffic_data_Inr:
  "fst (get_traffic_data self w owner repo) = Inr td \<Longrightarrow>
   \<exists>a b c d. td = [(''total_views'', a), (''unique_visitors'', b),
                    (''total_clones'', c), (''unique_cloners'', d)]"
  by (auto simp: traffic_data_result bind_exn_def split: sum.splits if_splits
           dest: traffic_fields_Inr)

lemma record_display:
  "dict_display
     ([(''timestamp'', ts), (''repository'', rp)]
      @ [(''stars'', a), (''forks'', b), (''watchers'', c), (''open_issues'', d), (''last_updated'', e)]
      @ [(''total_views'', tv), (''unique_visitors'', uv), (''total_clones'', tc), (''unique_cloners'', uc)]
      @ [(''fork_count'', fc), (''fork_details'', fd)])
   = [(''timestamp'', ts), (''repository'', rp),
      (''stars'', a), (''forks'', b), (''watchers'', c), (''open_issues'', d), (''last_updated'', e),
      (''total_views'', tv), (''unique_visitors'', uv), (''total_clones'', tc), (''unique_cloners'', uc),
      (''fork_count'', fc), (''fork_details'', fd)]"
  by (simp add: dict_display_def dict_set_def)

lemma requested_basic:
  "\<exists>n. requested (snd (get_repo_basic_metrics self w owner repo)) = replicate n (api_url self owner repo [])
       \<and> (0 \<le> max_retries self \<longrightarrow> 0 < n)"
  using requested_make_request[of self w "api_url self owner repo []" "''GET''"]
  by (auto simp: get_repo_basic_metrics_def snd_bind_res snd_lift_res split: sum.splits)

lemma requested_forks:
  "\<exists>n. requested (snd (get_fork_details self w owner repo)) = replicate n (api_url self owner repo ''/forks'')
       \<and> (0 \<le> max_retries self \<longrightarrow> 0 < n)"
  using requested_make_request[of self w "api_url self owner repo ''/forks''" "''GET''"]
  by (auto simp: get_fork_details_def snd_bind_res snd_lift_res split: sum.splits)

lemma requested_traffic:
  "\<exists>b c. requested (snd (get_traffic_data self w owner repo)) =
            replicate b (api_url self owner repo ''/traffic/views'')
            @ replicate c (api_url self owner repo ''/traffic/clones'')
       \<and> (0 \<le> max_retries self \<and> (\<exists>td. fst (get_traffic_data self w owner repo) = Inr td)
            \<longrightarrow> 0 < b \<and> 0 < c)"
proof -
  let ?v = "make_request self w (api_url self owner repo ''/traffic/views'') ''GET''"
  let ?c = "make_request self w (api_url self owner repo ''/traffic/clones'') ''GET''"
  let ?vd = "except_HTTPError (bind_res ?v (\<lambda>r. lift_res (response_json r))) zero_counts"
  obtain b where b: "requested (snd ?v) = replicate b (api_url self owner repo ''/traffic/views'')"
    "0 \<le> max_retries self \<longrightarrow> 0 < b"
    using requested_make_request[of self w "api_url self owner repo ''/traffic/views''" "''GET''"] by blast
  obtain c where c: "requested (snd ?c) = replicate c (api_url self owner repo ''/traffic/clones'')"
    "0 \<le> max_retries self \<longrightarrow> 0 < c"
    using requested_make_request[of self w "api_url self owner repo ''/traffic/clones''" "''GET''"] by blast
  have sv: "snd ?vd = snd ?v"
    by (simp add: snd_except_HTTPError snd_bind_res snd_lift_res split: sum.splits)
  show ?thesis
  proof (cases "fst ?vd")
    case (Inl e)
    then have "fst (get_traffic_data self w owner repo) = Inl e"
      and "snd (get_traffic_data self w owner repo) = snd ?v"
      using sv by (simp_all add: get_traffic_data_def Let_def fst_bind_res snd_bind_res)
    then have "requested (snd (get_traffic_data self w owner repo)) =
            replicate b (api_url self owner repo ''/traffic/views'')
            @ replicate 0 (api_url self owner repo ''/traffic/clones'')
       \<and> (0 \<le> max_retries self \<and> (\<exists>td. fst (get_traffic_data self w owner repo) = Inr td)
            \<longrightarrow> 0 < b \<and> 0 < (0::nat))"
      using b by simp
    then show ?thesis by blast
  next
    case (Inr vd)
    then have "snd (get_traffic_data self w owner repo) = snd ?v @ snd ?c"
      using sv
      by (simp add: get_traffic_data_def Let_def snd_bind_res snd_except_HTTPError snd_lift_res
            split: sum.splits)
    then have "requested (snd (get_traffic_data self w owner repo)) =
            replicate b (api_url self owner repo ''/traffic/views'')
            @ replicate c (api_url self owner repo ''/traffic/clones'')"
      using b c by (simp add: requested_append)
    then show ?thesis using b c by blast
  qed
qed

text \<open>
  Claim C6. \<^verbatim>\<open>collect_all_metrics\<close> calls the fetchers in the order basic
  metrics, traffic, fork details: its requests go to the repository URL, then to the
  views URL, then to the clones URL, then to the forks URL, and never back. When the
  three fetchers return, it returns a record: the timestamp, \<^verbatim>\<open>owner/repo\<close>, the
  fields of the basic metrics, the fields of the traffic data, \<^verbatim>\<open>fork_count\<close>
  equal to the length of the fork list, and the fork list. It returns a record in no
  other case, and a returned record has exactly these thirteen keys, each fetcher having
  issued a request. When a fetcher raises, \<^verbatim>\<open>collect_all_metrics\<close> raises the same
  exception, returns no record and calls no later fetcher.
\<close>

theorem collect_all_metrics_order_and_record:
  assumes basic: "basic = get_repo_basic_metrics self w owner repo"
    and traffic: "traffic = get_traffic_data self w owner repo"
    and forks: "forks = get_fork_details self w owner repo"
    and out: "out = collect_all_metrics self w owner repo"
  shows
   "(\<exists>a b c d.
       requested (snd out) =
         replicate a (api_url self owner repo [])
         @ replicate b (api_url self owner repo ''/traffic/views'')
         @ replicate c (api_url self owner repo ''/traffic/clones'')
         @ replicate d (api_url self owner repo ''/forks'')
       \<and> ((\<exists>metrics. fst out = Inr metrics) \<longrightarrow> 0 < a \<and> 0 < b \<and> 0 < c \<and> 0 < d))
  \<and> (\<forall>metrics. fst out = Inr metrics \<longrightarrow>
       (\<exists>stars forks_count watchers open_issues last_updated
          total_views unique_visitors total_clones unique_cloners fork_data.
          fst basic = Inr [(''stars'', stars), (''forks'', forks_count), (''watchers'', watchers),
                           (''open_issues'', open_issues), (''last_updated'', last_updated)]
        \<and> fst traffic = Inr [(''total_views'', total_views), (''unique_visitors'', unique_visitors),
                             (''total_clones'', total_clones), (''unique_cloners'', unique_cloners)]
        \<and> fst forks = Inr fork_data
        \<and> metrics =
            [(''timestamp'', PStr (datetime_now w)),
             (''repository'', PStr (owner @ ''/'' @ repo)),
             (''stars'', stars), (''forks'', forks_count), (''watchers'', watchers),
             (''open_issues'', open_issues), (''last_updated'', last_updated),
             (''total_views'', total_views), (''unique_visitors'', unique_visitors),
             (''total_clones'', total_clones), (''unique_cloners'', unique_cloners),
             (''fork_count'', PInt (int (length fork_data))),
             (''fork_details'', PList fork_data)]))
  \<and> (\<forall>e. fst basic = Inl e \<longrightarrow> out = (Inl e, snd basic))
  \<and> (\<forall>e bm. fst basic = Inr bm \<and> fst traffic = Inl e \<longrightarrow> out = (Inl e, snd basic @ snd traffic))
  \<and> (\<forall>e bm td. fst basic = Inr bm \<and> fst traffic = Inr td \<and> fst forks = Inl e
        \<longrightarrow> out = (Inl e, snd basic @ snd traffic @ snd forks))
  \<and> (\<forall>bm td fd. fst basic = Inr bm \<and> fst traffic = Inr td \<and> fst forks = Inr fd \<longrightarrow>
      out = (Inr (dict_display
         ([(''timestamp'', PStr (datetime_now w)),
           (''repository'', PStr (owner @ ''/'' @ repo))]
          @ bm @ td
          @ [(''fork_count'', PInt (int (length fd))), (''fork_details'', PList fd)])),
        snd basic @ snd traffic @ snd forks))"
proof -
  note defs = out collect_all_metrics_def basic[symmetric] traffic[symmetric] forks[symmetric]
  have fail1: "\<forall>e. fst basic = Inl e \<longrightarrow> out = (Inl e, snd basic)"
    unfolding out collect_all_metrics_def basic[symmetric] by (simp add: bind_res_def)
  have fail2: "\<forall>e bm. fst basic = Inr bm \<and> fst traffic = Inl e \<longrightarrow> out = (Inl e, snd basic @ snd traffic)"
    unfolding out collect_all_metrics_def basic[symmetric] traffic[symmetric] by (simp add: bind_res_def)
  have fail3: "\<forall>e bm td. fst basic = Inr bm \<and> fst traffic = Inr td \<and> fst forks = Inl e
        \<longrightarrow> out = (Inl e, snd basic @ snd traffic @ snd forks)"
    unfolding out collect_all_metrics_def basic[symmetric] traffic[symmetric] forks[symmetric]
    by (simp add: bind_res_def)
  have ok: "\<forall>bm td fd. fst basic = Inr bm \<and> fst traffic = Inr td \<and> fst forks = Inr fd \<longrightarrow>
      out = (Inr (dict_display
         ([(''timestamp'', PStr (datetime_now w)),
           (''repository'', PStr (owner @ ''/'' @ repo))]
          @ bm @ td
          @ [(''fork_count'', PInt (int (length fd))), (''fork_details'', PList fd)])),
        snd basic @ snd traffic @ snd forks)"
    unfolding out collect_all_metrics_def basic[symmetric] traffic[symmetric] forks[symmetric]
    by (simp add: bind_res_def lift_res_def)
  have success: "\<forall>metrics. fst out = Inr metrics \<longrightarrow>
      (\<exists>bm td fd. fst basic = Inr bm \<and> fst traffic = Inr td \<and> fst forks = Inr fd)"
    using fail1 fail2 fail3
    by (metis fst_conv sum.distinct(1) sum.exhaust)
  have shape: "\<forall>metrics. fst out = Inr metrics \<longrightarrow>
       (\<exists>stars forks_count watchers open_issues last_updated
          total_views unique_visitors total_clones unique_cloners fork_data.
          fst basic = Inr [(''stars'', stars), (''forks'', forks_count), (''watchers'', watchers),
                           (''open_issues'', open_issues), (''last_updated'', last_updated)]
        \<and> fst traffic = Inr [(''total_views'', total_views), (''unique_visitors'', unique_visitors),
                             (''total_clones'', total_clones), (''unique_cloners'', unique_cloners)]
        \<and> fst forks = Inr fork_data
        \<and> metrics =
            [(''timestamp'', PStr (datetime_now w)),
             (''repository'', PStr (owner @ ''/'' @ repo)),
             (''stars'', stars), (''forks'', forks_count), (''watchers'', watchers),
             (''open_issues'', open_issues), (''last_updated'', last_updated),
             (''total_views'', total_views), (''unique_visitors'', unique_visitors),
             (''total_clones'', total_clones), (''unique_cloners'', unique_cloners),
             (''fork_count'', PInt (int (length fork_data))),
             (''fork_details'', PList fork_data)])"
  proof (intro allI impI)
    fix metrics assume rec: "fst out = Inr metrics"
    with success obtain bm td fd where
      b: "fst basic = Inr bm" and t: "fst traffic = Inr td" and f: "fst forks = Inr fd"
      by blast
    from b basic obtain s1 s2 s3 s4 s5 where bm: "bm = [(''stars'', s1), (''forks'', s2), (''watchers'', s3),
                      (''open_issues'', s4), (''last_updated'', s5)]"
      using basic_metrics_Inr by blast
    from t traffic obtain t1 t2 t3 t4 where td: "td = [(''total_views'', t1), (''unique_visitors'', t2),
                    (''total_clones'', t3), (''unique_cloners'', t4)]"
      using traffic_data_Inr by blast
    from ok b t f rec have "metrics = dict_display
         ([(''timestamp'', PStr (datetime_now w)),
           (''repository'', PStr (owner @ ''/'' @ repo))]
          @ bm @ td
          @ [(''fork_count'', PInt (int (length fd))), (''fork_details'', PList fd)])"
      by simp
    then have "metrics = [(''timestamp'', PStr (datetime_now w)),
             (''repository'', PStr (owner @ ''/'' @ repo)),
             (''stars'', s1), (''forks'', s2), (''watchers'', s3),
             (''open_issues'', s4), (''last_updated'', s5),
             (''total_views'', t1), (''unique_visitors'', t2),
             (''total_clones'', t3), (''unique_cloners'', t4),
             (''fork_count'', PInt (int (length fd))),
             (''fork_details'', PList fd)]"
      unfolding bm td by (simp only: record_display)
    with b t f bm td show "\<exists>stars forks_count watchers open_issues last_updated
          total_views unique_visitors total_clones unique_cloners fork_data.
          fst basic = Inr [(''stars'', stars), (''forks'', forks_count), (''watchers'', watchers),
                           (''open_issues'', open_issues), (''last_updated'', last_updated)]
        \<and> fst traffic = Inr [(''total_views'', total_views), (''unique_visitors'', unique_visitors),
                             (''total_clones'', total_clones), (''unique_cloners'', unique_cloners)]
        \<and> fst forks = Inr fork_data
        \<and> metrics =
            [(''timestamp'', PStr (datetime_now w)),
             (''repository'', PStr (owner @ ''/'' @ repo)),
             (''stars'', stars), (''forks'', forks_count), (''watchers'', watchers),
             (''open_issues'', open_issues), (''last_updated'', last_updated),
             (''total_views'', total_views), (''unique_visitors'', unique_visitors),
             (''total_clones'', total_clones), (''unique_cloners'', unique_cloners),
             (''fork_count'', PInt (int (length fork_data))),
             (''fork_details'', PList fork_data)]"
      by blast
  qed
  have order: "\<exists>a b c d.
       requested (snd out) =
         replicate a (api_url self owner repo [])
         @ replicate b (api_url self owner repo ''/traffic/views'')
         @ replicate c (api_url self owner repo ''/traffic/clones'')
         @ replicate d (api_url self owner repo ''/forks'')
       \<and> ((\<exists>metrics. fst out = Inr metrics) \<longrightarrow> 0 < a \<and> 0 < b \<and> 0 < c \<and> 0 < d)"
  proof -
    obtain a where a: "requested (snd basic) = replicate a (api_url self owner repo [])"
        "0 \<le> max_retries self \<longrightarrow> 0 < a"
      using requested_basic[of self w owner repo] basic by blast
    obtain b c where bc: "requested (snd traffic) =
            replicate b (api_url self owner repo ''/traffic/views'')
            @ replicate c (api_url self owner repo ''/traffic/clones'')"
        "0 \<le> max_retries self \<and> (\<exists>td. fst traffic = Inr td) \<longrightarrow> 0 < b \<and> 0 < c"
      using requested_traffic[of self w owner repo] traffic by blast
    obtain d where d: "requested (snd forks) = replicate d (api_url self owner repo ''/forks'')"
        "0 \<le> max_retries self \<longrightarrow> 0 < d"
      using requested_forks[of self w owner repo] forks by blast
    show ?thesis
    proof (cases "fst basic")
      case (Inl e)
      then have "out = (Inl e, snd basic)" using fail1 by blast
      then have "requested (snd out) =
         replicate a (api_url self owner repo [])
         @ replicate 0 (api_url self owner repo ''/traffic/views'')
         @ replicate 0 (api_url self owner repo ''/traffic/clones'')
         @ replicate 0 (api_url self owner repo ''/forks'')
       \<and> ((\<exists>metrics. fst out = Inr metrics) \<longrightarrow> 0 < a \<and> 0 < (0::nat) \<and> 0 < (0::nat) \<and> 0 < (0::nat))"
        using a by simp
      then show ?thesis by blast
    next
      case bm: (Inr bm)
      then have budget: "0 \<le> max_retries self"
        using basic basic_metrics_Inr by blast
      show ?thesis
      proof (cases "fst traffic")
        case (Inl e)
        then have "out = (Inl e, snd basic @ snd traffic)" using fail2 bm by blast
        then have "requested (snd out) =
           replicate a (api_url self owner repo [])
           @ replicate b (api_url self owner repo ''/traffic/views'')
           @ replicate c (api_url self owner repo ''/traffic/clones'')
           @ replicate 0 (api_url self owner repo ''/forks'')
         \<and> ((\<exists>metrics. fst out = Inr metrics) \<longrightarrow> 0 < a \<and> 0 < b \<and> 0 < c \<and> 0 < (0::nat))"
          using a bc by (simp add: requested_append)
        then show ?thesis by blast
      next
        case td: (Inr td)
        have "snd out = snd basic @ snd traffic @ snd forks"
          using fail3 ok bm td by (cases "fst forks") simp_all
        then have "requested (snd out) =
           replicate a (api_url self owner repo [])
           @ replicate b (api_url self owner repo ''/traffic/views'')
           @ replicate c (api_url self owner repo ''/traffic/clones'')
           @ replicate d (api_url self owner repo ''/forks'')"
          using a bc d by (simp add: requested_append)
        moreover have "0 < a \<and> 0 < b \<and> 0 < c \<and> 0 < d"
          using a bc d budget td by blast
        ultimately show ?thesis by blast
      qed
    qed
  qed
  from order shape fail1 fail2 fail3 ok show ?thesis by (intro conjI)
qed

section \<open>Independence of the clock\<close>

lemma new_RateLimitError_plain: "\<not> is_HTTPError (new_RateLimitError w t)"
  using new_RateLimitError_cases[of w t] stamp_exn_plain(2) by auto

lemma time_sleep_plain: "time_sleep secs = Inl e \<Longrightarrow> \<not> is_HTTPError e"
  using time_sleep_error by fastforce

lemma try_body_clock:
  assumes "remote w1 = remote w2"
  shows "try_body self w1 url meth k = try_body self w2 url meth k
       \<or> (\<exists>e. try_body self w1 url meth k = Inr (Raise e) \<and> \<not> is_HTTPError e)
       \<or> (\<exists>e. try_body self w2 url meth k = Inr (Raise e) \<and> \<not> is_HTTPError e)
       \<or> (\<exists>s1 s2. try_body self w1 url meth k = Inr (Retry s1)
                 \<and> try_body self w2 url meth k = Inr (Retry s2))"
  using assms
  by (auto simp: try_body_def int_minus_float_def new_RateLimitError_plain
           split: outcome.splits sum.splits)

lemma iteration_clock:
  assumes "remote w1 = remote w2"
  shows "iteration self w1 url meth k = iteration self w2 url meth k
       \<or> (\<exists>e. iteration self w1 url meth k = Raise e \<and> \<not> is_HTTPError e)
       \<or> (\<exists>e. iteration self w2 url meth k = Raise e \<and> \<not> is_HTTPError e)
       \<or> (\<exists>s1 s2. iteration self w1 url meth k = Retry s1
                 \<and> iteration self w2 url meth k = Retry s2)"
  using try_body_clock[OF assms, of self url meth k]
  by (auto simp: iteration_def)

lemma loop_clock:
  assumes same: "remote w1 = remote w2"
  shows "fst (make_request_loop self w1 url meth k) = fst (make_request_loop self w2 url meth k)
       \<or> raised_other (fst (make_request_loop self w1 url meth k))
       \<or> raised_other (fst (make_request_loop self w2 url meth k))"
proof (induction "nat (max_retries self + 1 - int k)" arbitrary: k)
  case 0
  then have "\<not> int k \<le> max_retries self" by simp
  then show ?case by (simp add: loop_exit)
next
  case (Suc n)
  then have enter: "int k \<le> max_retries self" by simp
  have n: "n = nat (max_retries self + 1 - int (k + 1))" using Suc.hyps(2) by simp
  note IH = Suc.hyps(1)[OF n]
  consider (eq) "iteration self w1 url meth k = iteration self w2 url meth k"
    | (r1) e where "iteration self w1 url meth k = Raise e" "\<not> is_HTTPError e"
    | (r2) e where "iteration self w2 url meth k = Raise e" "\<not> is_HTTPError e"
    | (both) s1 s2 where "iteration self w1 url meth k = Retry s1"
         "iteration self w2 url meth k = Retry s2"
    using iteration_clock[OF same, of self url meth k] by blast
  then show ?case
  proof cases
    case eq
    show ?thesis
    proof (cases "iteration self w2 url meth k")
      case (Return r)
      then show ?thesis using eq enter by (simp add: loop_enter emit_def)
    next
      case (Raise e)
      then show ?thesis using eq enter by (simp add: loop_enter emit_def)
    next
      case (Retry s)
      show ?thesis
      proof (cases "time_sleep s")
        case (Inl e)
        then show ?thesis using eq Retry enter by (simp add: loop_enter emit_def)
      next
        case (Inr u)
        then show ?thesis using eq Retry enter IH by (simp add: loop_enter emit_def)
      qed
    qed
  next
    case r1
    then show ?thesis using enter by (simp add: loop_enter emit_def raised_other_def)
  next
    case r2
    then show ?thesis using enter by (simp add: loop_enter emit_def raised_other_def)
  next
    case both
    show ?thesis
    proof (cases "time_sleep s1")
      case (Inl e)
      then have "fst (make_request_loop self w1 url meth k) = Inl e"
        using both enter by (simp add: loop_enter emit_def)
      then show ?thesis using time_sleep_plain[OF Inl] by (simp add: raised_other_def)
    next
      case s1: (Inr u)
      show ?thesis
      proof (cases "time_sleep s2")
        case (Inl e)
        then have "fst (make_request_loop self w2 url meth k) = Inl e"
          using both enter by (simp add: loop_enter emit_def)
        then show ?thesis using time_sleep_plain[OF Inl] by (simp add: raised_other_def)
      next
        case (Inr u')
        then show ?thesis using s1 both enter IH by (simp add: loop_enter emit_def)
      qed
    qed
  qed
qed

lemma make_request_clock:
  assumes "remote w1 = remote w2"
  shows "fst (make_request self w1 url meth) = fst (make_request self w2 url meth)
       \<or> raised_other (fst (make_request self w1 url meth))
       \<or> raised_other (fst (make_request self w2 url meth))"
  using loop_clock[OF assms] by (simp add: make_request_def)

lemma bind_pure_clock:
  assumes "fst m1 = fst m2 \<or> raised_other (fst m1) \<or> raised_other (fst m2)"
  shows "fst (bind_res m1 (\<lambda>x. lift_res (f x))) = fst (bind_res m2 (\<lambda>x. lift_res (f x)))
       \<or> raised_other (fst (bind_res m1 (\<lambda>x. lift_res (f x))))
       \<or> raised_other (fst (bind_res m2 (\<lambda>x. lift_res (f x))))"
  using assms
  by (auto simp: fst_bind_res fst_lift_res raised_other_def split: sum.splits)

lemma except_clock:
  assumes "fst m1 = fst m2 \<or> raised_other (fst m1) \<or> raised_other (fst m2)"
  shows "fst (except_HTTPError m1 d) = fst (except_HTTPError m2 d)
       \<or> raised_other (fst (except_HTTPError m1 d))
       \<or> raised_other (fst (except_HTTPError m2 d))"
  using assms
  by (auto simp: fst_except_HTTPError raised_other_def split: sum.splits)

lemma basic_clock:
  assumes "remote w1 = remote w2"
  shows "fst (get_repo_basic_metrics self w1 owner repo) = fst (get_repo_basic_metrics self w2 owner repo)
       \<or> raised_other (fst (get_repo_basic_metrics self w1 owner repo))
       \<or> raised_other (fst (get_repo_basic_metrics self w2 owner repo))"
  unfolding get_repo_basic_metrics_def
  by (rule bind_pure_clock) (rule make_request_clock[OF assms])

lemma forks_clock:
  assumes "remote w1 = remote w2"
  shows "fst (get_fork_details self w1 owner repo) = fst (get_fork_details self w2 owner repo)
       \<or> raised_other (fst (get_fork_details self w1 owner repo))
       \<or> raised_other (fst (get_fork_details self w2 owner repo))"
  unfolding get_fork_details_def
  by (rule bind_pure_clock) (rule make_request_clock[OF assms])

lemma traffic_clock:
  assumes same: "remote w1 = remote w2"
  shows "fst (get_traffic_data self w1 owner repo) = fst (get_traffic_data self w2 owner repo)
       \<or> raised_other (fst (get_traffic_data self w1 owner repo))
       \<or> raised_other (fst (get_traffic_data self w2 owner repo))"
proof -
  let ?sub = "\<lambda>w suffix. except_HTTPError
              (bind_res (make_request self w (api_url self owner repo suffix) ''GET'') (\<lambda>r.
                 lift_res (response_json r))) zero_counts"
  have sub: "fst (?sub w1 suffix) = fst (?sub w2 suffix)
       \<or> raised_other (fst (?sub w1 suffix)) \<or> raised_other (fst (?sub w2 suffix))" for suffix
    by (rule except_clock, rule bind_pure_clock) (rule make_request_clock[OF same])
  show ?thesis
    using sub[of "''/traffic/views''"] sub[of "''/traffic/clones''"]
    by (auto simp: get_traffic_data_def Let_def fst_bind_res fst_lift_res raised_other_def
          split: sum.splits)
qed

lemma collect_Inr:
  assumes "fst (collect_all_metrics self w owner repo) = Inr metrics"
  shows "\<exists>bm td fd. fst (get_repo_basic_metrics self w owner repo) = Inr bm
           \<and> fst (get_traffic_data self w owner repo) = Inr td
           \<and> fst (get_fork_details self w owner repo) = Inr fd
           \<and> metrics = dict_display
               ([(''timestamp'', PStr (datetime_now w)),
                 (''repository'', PStr (owner @ ''/'' @ repo))]
                @ bm @ td
                @ [(''fork_count'', PInt (int (length fd))), (''fork_details'', PList fd)])"
  using assms
  by (auto simp: collect_all_metrics_def fst_bind_res fst_lift_res split: sum.splits)

text \<open>
  Claim C8. Two calls of \<^verbatim>\<open>collect_all_metrics\<close> for the same owner and
  repository that meet the same remote responses, under any clocks, and that both return
  a record, return records with the same keys in the same order and the same value under
  every key but \<^verbatim>\<open>timestamp\<close>.
\<close>

theorem collect_twice_differs_only_in_timestamp:
  assumes same: "remote w1 = remote w2"
    and run1: "fst (collect_all_metrics self w1 owner repo) = Inr metrics1"
    and run2: "fst (collect_all_metrics self w2 owner repo) = Inr metrics2"
  shows "map fst metrics1 = map fst metrics2
       \<and> (\<forall>k. k \<noteq> ''timestamp'' \<longrightarrow> map_of metrics1 k = map_of metrics2 k)
       \<and> metrics2 = dict_set metrics1 ''timestamp'' (PStr (datetime_now w2))"
proof -
  from collect_Inr[OF run1] obtain bm td fd where
    b1: "fst (get_repo_basic_metrics self w1 owner repo) = Inr bm"
    and t1: "fst (get_traffic_data self w1 owner repo) = Inr td"
    and f1: "fst (get_fork_details self w1 owner repo) = Inr fd"
    and m1: "metrics1 = dict_display
               ([(''timestamp'', PStr (datetime_now w1)),
                 (''repository'', PStr (owner @ ''/'' @ repo))]
                @ bm @ td
                @ [(''fork_count'', PInt (int (length fd))), (''fork_details'', PList fd)])"
    by blast
  from collect_Inr[OF run2] obtain bm' td' fd' where
    b2: "fst (get_repo_basic_metrics self w2 owner repo) = Inr bm'"
    and t2: "fst (get_traffic_data self w2 owner repo) = Inr td'"
    and f2: "fst (get_fork_details self w2 owner repo) = Inr fd'"
    and m2: "metrics2 = dict_display
               ([(''timestamp'', PStr (datetime_now w2)),
                 (''repository'', PStr (owner @ ''/'' @ repo))]
                @ bm' @ td' @
                [(''fork_count'', PInt (int (length fd'))), (''fork_details'', PList fd')])"
    by blast
  have bm: "bm' = bm"
    using basic_clock[OF same, of self owner repo] b1 b2 by (simp add: raised_other_def)
  have td: "td' = td"
    using traffic_clock[OF same, of self owner repo] t1 t2 by (simp add: raised_other_def)
  have fd: "fd' = fd"
    using forks_clock[OF same, of self owner repo] f1 f2 by (simp add: raised_other_def)
  obtain s1 s2 s3 s4 s5 where bms: "bm = [(''stars'', s1), (''forks'', s2), (''watchers'', s3),
                      (''open_issues'', s4), (''last_updated'', s5)]"
    using basic_metrics_Inr[OF b1] by blast
  obtain v1 v2 v3 v4 where tds: "td = [(''total_views'', v1), (''unique_visitors'', v2),
                    (''total_clones'', v3), (''unique_cloners'', v4)]"
    using traffic_data_Inr[OF t1] by blast
  have e1: "metrics1 = [(''timestamp'', PStr (datetime_now w1)),
             (''repository'', PStr (owner @ ''/'' @ repo)),
             (''stars'', s1), (''forks'', s2), (''watchers'', s3),
             (''open_issues'', s4), (''last_updated'', s5),
             (''total_views'', v1), (''unique_visitors'', v2),
             (''total_clones'', v3), (''unique_cloners'', v4),
             (''fork_count'', PInt (int (length fd))),
             (''fork_details'', PList fd)]"
    unfolding m1 bms tds by (simp only: record_display)
  have e2: "metrics2 = [(''timestamp'', PStr (datetime_now w2)),
             (''repository'', PStr (owner @ ''/'' @ repo)),
             (''stars'', s1), (''forks'', s2), (''watchers'', s3),
             (''open_issues'', s4), (''last_updated'', s5),
             (''total_views'', v1), (''unique_visitors'', v2),
             (''total_clones'', v3), (''unique_cloners'', v4),
             (''fork_count'', PInt (int (length fd))),
             (''fork_details'', PList fd)]"
    unfolding m2 bm td fd bms tds by (simp only: record_display)
  have keys: "map fst metrics1 = map fst metrics2"
    unfolding e1 e2 by simp
  have others: "\<forall>k. k \<noteq> ''timestamp'' \<longrightarrow> map_of metrics1 k = map_of metrics2 k"
    unfolding e1 e2 by simp
  have upd: "metrics2 = dict_set metrics1 ''timestamp'' (PStr (datetime_now w2))"
    unfolding e1 e2 by (simp add: dict_set_def)
  from keys others upd show ?thesis by (intro conjI)
qed

section \<open>A full run on an example repository\<close>

lemma octo_fields: "max_retries octo = 1" "retry_delay octo = 5" "base_url octo = ''https://api.github.com''"
  by (simp_all add: octo_def init_def)

lemma octo_urls:
  "api_url octo ''octo'' ''lens'' [] = ''https://api.github.com/repos/octo/lens''"
  "api_url octo ''octo'' ''lens'' ''/traffic/views'' = ''https://api.github.com/repos/octo/lens/traffic/views''"
  "api_url octo ''octo'' ''lens'' ''/traffic/clones'' = ''https://api.github.com/repos/octo/lens/traffic/clones''"
  "api_url octo ''octo'' ''lens'' ''/forks'' = ''https://api.github.com/repos/octo/lens/forks''"
  by (simp_all add: api_url_def octo_fields)

lemma octo_basic_request:
  "remote w = octo_remote \<Longrightarrow>
   fst (make_request octo w ''https://api.github.com/repos/octo/lens'' ''GET'') = Inr (ok_with repo_json)"
  by (simp add: make_request_def loop_enter octo_fields iteration_def try_body_def octo_remote_def
        ok_with_def raise_for_status_def emit_def)

lemma octo_views_request:
  "remote w = octo_remote \<Longrightarrow>
   fst (make_request octo w ''https://api.github.com/repos/octo/lens/traffic/views'' ''GET'')
     = Inl (RequestException (HTTPError forbidden))"
  by (simp add: make_request_def loop_enter octo_fields iteration_def try_body_def octo_remote_def
        forbidden_def raise_for_status_def emit_def except_handler_def time_sleep_def)

lemma octo_clones_request:
  "remote w = octo_remote \<Longrightarrow>
   fst (make_request octo w ''https://api.github.com/repos/octo/lens/traffic/clones'' ''GET'')
     = Inr ok_response"
  by (simp add: make_request_def loop_enter octo_fields iteration_def try_body_def octo_remote_def
        ok_response_def raise_for_status_def emit_def)

lemma octo_forks_request:
  "remote w = octo_remote \<Longrightarrow>
   fst (make_request octo w ''https://api.github.com/repos/octo/lens/forks'' ''GET'')
     = Inr (ok_with forks_json)"
  by (simp add: make_request_def loop_enter octo_fields iteration_def try_body_def octo_remote_def
        ok_with_def raise_for_status_def emit_def)

lemma octo_basic:
  "remote w = octo_remote \<Longrightarrow>
   fst (get_repo_basic_metrics octo w ''octo'' ''lens'') =
     Inr [(''stars'', PInt 42), (''forks'', PInt 2), (''watchers'', PInt 7),
          (''open_issues'', PInt 3), (''last_updated'', PStr ''2023-11-14T20:00:00Z'')]"
  by (simp add: get_repo_basic_metrics_def octo_urls fst_bind_res octo_basic_request fst_lift_res
        response_json_def ok_with_def repo_json_def basic_fields_def bind_exn_def
        dict_display_def dict_set_def)

lemma octo_traffic:
  "remote w = octo_remote \<Longrightarrow>
   fst (get_traffic_data octo w ''octo'' ''lens'') =
     Inr [(''total_views'', PInt 0), (''unique_visitors'', PInt 0),
          (''total_clones'', PInt 5), (''unique_cloners'', PInt 2)]"
  by (simp add: traffic_data_result octo_urls octo_views_request octo_clones_request
        response_json_def ok_response_def bind_exn_def zero_counts_eq traffic_fields_dicts
        get_default_def)

lemma octo_forks:
  "remote w = octo_remote \<Longrightarrow>
   fst (get_fork_details octo w ''octo'' ''lens'') =
     Inr [PDict
           [(''owner'', PStr ''alice''),
            (''created_at'', PStr ''2023-01-01T00:00:00Z''),
            (''last_updated'', PStr ''2023-02-01T00:00:00Z''),
            (''stars'', PInt 1)],
          PDict
           [(''owner'', PStr ''bob''),
            (''created_at'', PStr ''2023-03-01T00:00:00Z''),
            (''last_updated'', PStr ''2023-04-01T00:00:00Z''),
            (''stars'', PInt 0)]]"
  by (simp add: get_fork_details_def octo_urls fst_bind_res octo_forks_request fst_lift_res
        response_json_def ok_with_def forks_json_def fork_entry_def bind_exn_def
        dict_display_def dict_set_def)

lemma octo_collect:
  "remote w = octo_remote \<Longrightarrow>
   fst (collect_all_metrics octo w ''octo'' ''lens'') = Inr (octo_metrics (datetime_now w))"
  by (simp add: collect_all_metrics_def fst_bind_res octo_basic octo_traffic octo_forks
        fst_lift_res octo_metrics_def dict_display_def dict_set_def)

lemma octo_worlds: "remote world_octo = octo_remote" "remote world_octo_later = octo_remote"
  "datetime_now world_octo = ''2023-11-14T22:13:20''" "datetime_now world_octo_later = ''2023-11-14T22:21:40''"
  by (simp_all add: world_octo_def world_octo_later_def)

theorem traffic_sub_resources_guarded_independently_witness:
  "fst (get_traffic_data octo world_octo ''octo'' ''lens'') =
     Inr [(''total_views'', PInt 0), (''unique_visitors'', PInt 0),
          (''total_clones'', PInt 5), (''unique_cloners'', PInt 2)]"
  using traffic_sub_resources_guarded_independently[OF refl refl refl, of octo world_octo "''octo''" "''lens''"]
  by (simp add: octo_urls octo_views_request octo_clones_request octo_worlds
        ok_response_def get_default_def)

theorem collect_all_metrics_order_and_record_witness:
  "collect_all_metrics octo world_octo ''octo'' ''lens'' =
     (Inr (octo_metrics ''2023-11-14T22:13:20''),
      snd (get_repo_basic_metrics octo world_octo ''octo'' ''lens'')
      @ snd (get_traffic_data octo world_octo ''octo'' ''lens'')
      @ snd (get_fork_details octo world_octo ''octo'' ''lens''))
   \<and> (\<exists>a b c d.
       requested (snd (collect_all_metrics octo world_octo ''octo'' ''lens'')) =
         replicate a ''https://api.github.com/repos/octo/lens''
         @ replicate b ''https://api.github.com/repos/octo/lens/traffic/views''
         @ replicate c ''https://api.github.com/repos/octo/lens/traffic/clones''
         @ replicate d ''https://api.github.com/repos/octo/lens/forks''
       \<and> 0 < a \<and> 0 < b \<and> 0 < c \<and> 0 < d)"
proof -
  let ?basic = "get_repo_basic_metrics octo world_octo ''octo'' ''lens''"
  let ?traffic = "get_traffic_data octo world_octo ''octo'' ''lens''"
  let ?forks = "get_fork_details octo world_octo ''octo'' ''lens''"
  let ?out = "collect_all_metrics octo world_octo ''octo'' ''lens''"
  note c6 = collect_all_metrics_order_and_record
               [OF refl refl refl refl, of octo world_octo "''octo''" "''lens''"]
  from c6 have returns:
    "fst ?basic = Inr bm \<and> fst ?traffic = Inr td \<and> fst ?forks = Inr fd \<longrightarrow>
      ?out = (Inr (dict_display
         ([(''timestamp'', PStr (datetime_now world_octo)),
           (''repository'', PStr (''octo'' @ ''/'' @ ''lens''))]
          @ bm @ td
          @ [(''fork_count'', PInt (int (length fd))), (''fork_details'', PList fd)])),
        snd ?basic @ snd ?traffic @ snd ?forks)" for bm td fd
    by blast
  have out: "?out = (Inr (octo_metrics ''2023-11-14T22:13:20''),
                     snd ?basic @ snd ?traffic @ snd ?forks)"
    using returns[THEN mp, OF conjI[OF octo_basic[OF octo_worlds(1)]
                      conjI[OF octo_traffic[OF octo_worlds(1)] octo_forks[OF octo_worlds(1)]]]]
    by (simp add: octo_worlds octo_metrics_def dict_display_def dict_set_def)
  from c6 have "\<exists>a b c d.
       requested (snd ?out) =
         replicate a (api_url octo ''octo'' ''lens'' [])
         @ replicate b (api_url octo ''octo'' ''lens'' ''/traffic/views'')
         @ replicate c (api_url octo ''octo'' ''lens'' ''/traffic/clones'')
         @ replicate d (api_url octo ''octo'' ''lens'' ''/forks'')
       \<and> ((\<exists>metrics. fst ?out = Inr metrics) \<longrightarrow> 0 < a \<and> 0 < b \<and> 0 < c \<and> 0 < d)"
    by blast
  then have order: "\<exists>a b c d.
       requested (snd ?out) =
         replicate a ''https://api.github.com/repos/octo/lens''
         @ replicate b ''https://api.github.com/repos/octo/lens/traffic/views''
         @ replicate c ''https://api.github.com/repos/octo/lens/traffic/clones''
         @ replicate d ''https://api.github.com/repos/octo/lens/forks''
       \<and> 0 < a \<and> 0 < b \<and> 0 < c \<and> 0 < d"
    unfolding octo_urls using out by (metis fst_conv)
  from out order show ?thesis by (rule conjI)
qed

theorem collect_twice_differs_only_in_timestamp_witness:
  "fst (collect_all_metrics octo world_octo_later ''octo'' ''lens'')
     = Inr (dict_set (octo_metrics ''2023-11-14T22:13:20'') ''timestamp'' (PStr ''2023-11-14T22:21:40''))"
  using collect_twice_differs_only_in_timestamp[of world_octo world_octo_later octo "''octo''" "''lens''"
          "octo_metrics ''2023-11-14T22:13:20''" "octo_metrics ''2023-11-14T22:21:40''"]
  by (simp add: octo_collect octo_worlds)

section \<open>The export leaves its input alone\<close>

lemma heap_lookup_append: "a < length h \<Longrightarrow> heap_lookup (h @ xs) a = Some (h ! a)"
  by (simp add: heap_lookup_def nth_append)

lemma flatten_keeps:
  assumes "flatten_fork_details pf h1 export_copy = Inr h2" and "n \<le> export_copy"
  shows "take n h2 = take n h1"
  using assms
  by (auto simp: flatten_fork_details_def heap_lookup_def Let_def
           split: option.splits obj.splits if_splits)

lemma export_body_keeps:
  "take (length h) (fst (snd (export_body pf h data filename format))) = h"
proof (cases "heap_lookup h data")
  case None
  then show ?thesis by (simp add: export_body_def)
next
  case (Some original)
  show ?thesis
  proof (cases "if lower format = ''csv'' then flatten_fork_details pf (h @ [original]) (length h)
                else Inr (h @ [original])")
    case (Inl e)
    then show ?thesis using Some by (simp add: export_body_def Let_def)
  next
    case (Inr h2)
    have "take (length h) h2 = take (length h) (h @ [original])"
      using Inr flatten_keeps[of pf "h @ [original]" "length h" h2 "length h"]
      by (auto split: if_splits)
    then have keep: "take (length h) h2 = h" by simp
    then have "length h \<le> length h2"
      by (metis length_take min.cobounded1)
    with keep have "take (length h) (h2 @ [OList [VRef (length h)]]) = h" by simp
    then show ?thesis using Some Inr
      by (simp add: export_body_def Let_def split: option.splits)
  qed
qed

text \<open>
  Claim C10. \<^verbatim>\<open>export_data\<close> leaves every object that existed before the call
  as it was, for every record, every format and every behaviour of the file system,
  whether it returns or raises: the caller's dictionary and the list under its
  \<^verbatim>\<open>fork_details\<close> key among them. The assignment of the flattened string goes to
  the copy, which is a new object.
\<close>

theorem export_data_keeps_input:
  "take (length h) (fst (snd (export_data pf h data output_dir base_name format))) = h"
  by (simp add: export_data_def Let_def export_body_keeps split: option.splits)


lemma demo_csv:
  "export_data demo_platform demo_heap 2 ''out'' ''github_metrics'' ''csv'' =
    (Inr (),
     demo_heap @
       [ODict [(''timestamp'', VStr ''2023-11-14T22:13:20''), (''fork_count'', VInt 1),
               (''fork_details'', VStr ''[...]'')],
        OList [],
        OList [VRef 3]],
     [MadeDir ''out'', Truncated ''out/github_metrics_20231114_221320.csv'',
      Wrote ''out/github_metrics_20231114_221320.csv'' ''csv text''])"
  by (simp add: export_data_def export_body_def flatten_fork_details_def write_out_def
        demo_platform_def demo_heap_def heap_lookup_def Let_def os_path_join_def
        generate_filename_def lower_def lower_char_def get_default_def dict_set_def)

end
